theory Spec2Isabelle
  imports Complex_Main "HOL-Library.Word" "HOL-Library.Multiset"
begin

section \<open>Bounding-box look-up table construction (splitBBoxLUT.pyx)\<close>

text \<open>
  The Cython module builds, for a detector geometry, the list of contributions
  \<open>(bin, pixel, weight)\<close> handed to the sparse builder. Conventions of the embedding:

  \<^item> \<open>position_t\<close> and \<open>acc_t\<close> (IEEE floating point) are idealised as \<open>real\<close>: rounding,
    infinities and NaN are outside the model. A floating-point division by zero does
    not fail in the source (the module is compiled with \<open>cdivision=True\<close>), so the
    constructors below return normally for a bin width or bin count of 0 as well; the
    quotients computed there are infinite or NaN in the source and are outside the model.
  \<^item> C \<open>int\<close> values are \<open>int\<close>; the cast \<open><int> x\<close> truncates toward zero. Values
    beyond the range of a C \<open>int\<close> are outside the model.
  \<^item> The attributes of the two classes are record fields with the prefixes \<open>h1_\<close> and
    \<open>h2_\<close>, the constructor arguments with \<open>a1_\<close> and \<open>a2_\<close>; the methods of
    \<open>HistoBBox2d\<close> carry the suffix \<open>2d\<close>.
  \<^item> Memory views are lists; the module is compiled with \<open>boundscheck=False\<close>, so the
    read \<open>cpos0[0]\<close> of an empty view is an unchecked read, modelled as the outcome
    \<open>UncheckedRead\<close>.
  \<^item> The sparse builder is an external collaborator: a LUT is modelled as the sequence
    of \<open>cinsert(bin, idx, weight)\<close> calls, in program order.
\<close>

subsection \<open>Helpers of the included file regrid\_common.pxi\<close>

text \<open>
  Modelled from the spec: \<open>get_bin_number\<close> is defined in the included file
  \<open>regrid_common.pxi\<close>, which is not part of the sources at hand. The specification gives
  the continuous bin position as \<open>(value - min) / delta\<close>.
\<close>

definition get_bin_number :: "real \<Rightarrow> real \<Rightarrow> real \<Rightarrow> real" where
  "get_bin_number x0 pos0_min delta = (x0 - pos0_min) / delta"

text \<open>
  Modelled from the spec: \<open>onef\<close> is a constant of the included file; the specification
  says that the no-split path emits weight 1.0.
\<close>

definition onef :: real where
  "onef = 1"

text \<open>The C cast \<open><int> x\<close> of a floating-point value: truncation toward zero.\<close>

definition c_int :: "real \<Rightarrow> int" where
  "c_int x = (if 0 \<le> x then \<lfloor>x\<rfloor> else \<lceil>x\<rceil>)"

text \<open>
  \<open>calc_upper_bound\<close> (also of \<open>regrid_common.pxi\<close>) is taken as a parameter \<open>cub\<close> of
  every function that calls it, and so is the constant \<open>pi\<close> (parameter \<open>pic\<close>).
\<close>

subsection \<open>Data\<close>

type_synonym mask_t = "8 word"

text \<open>One call \<open>builder.cinsert(bin, idx, weight)\<close>.\<close>

type_synonym lut_entry = "int \<times> nat \<times> real"

definition entry_bin :: "lut_entry \<Rightarrow> int" where
  "entry_bin e = fst e"

definition entry_idx :: "lut_entry \<Rightarrow> nat" where
  "entry_idx e = fst (snd e)"

definition entry_weight :: "lut_entry \<Rightarrow> real" where
  "entry_weight e = snd (snd e)"

datatype error =
    AssertionError string
  | AttributeError
  | ValueError
  | UncheckedRead

text \<open>The attributes of a \<open>HistoBBox1d\<close> instance.\<close>

record histo1d =
  h1_size :: nat
  h1_bins :: int
  h1_allow_pos0_neg :: bool
  h1_check_mask :: bool
  h1_cmask :: "mask_t list"
  h1_cpos0 :: "real list"
  h1_dpos0 :: "real list"
  h1_cpos0_sup :: "real list"
  h1_cpos0_inf :: "real list"
  h1_pos0_min :: real
  h1_pos0_maxin :: real
  h1_pos0_max :: real
  h1_check_pos1 :: bool
  h1_cpos1_min :: "real list"
  h1_cpos1_max :: "real list"
  h1_pos1_min :: real
  h1_pos1_max :: real
  h1_delta :: real
  h1_lut :: "lut_entry list"
  h1_bin_centers :: "real list"
  h1_warnings :: "string list"

text \<open>The arguments of \<open>HistoBBox1d.__init__\<close> that take part in the computation
  (\<open>mask_checksum\<close>, \<open>unit\<close> and \<open>empty\<close> are only stored or passed on).\<close>

record init1d_args =
  a1_pos0 :: "real list"
  a1_delta_pos0 :: "real list option"
  a1_pos1 :: "real list option"
  a1_delta_pos1 :: "real list option"
  a1_bins :: int
  a1_pos0_range :: "(real \<times> real) option"
  a1_pos1_range :: "(real \<times> real) option"
  a1_mask :: "mask_t list option"
  a1_allow_pos0_neg :: bool

subsection \<open>HistoBBox1d.calc\_boundaries\<close>

text \<open>The loop state: the two views being filled and the running extrema.\<close>

record bounds1d =
  b_sup :: "real list"
  b_inf :: "real list"
  b_max :: real
  b_min :: real

text \<open>One iteration of the loop of \<open>calc_boundaries\<close>. The lower bound is stored in
  \<open>cpos0_inf\<close> before the clamp to 0 is applied to the local variable.\<close>

definition calc_boundaries_step :: "histo1d \<Rightarrow> nat \<Rightarrow> bounds1d \<Rightarrow> bounds1d" where
  "calc_boundaries_step s idx b =
    (let c = h1_cpos0 s ! idx;
         d = h1_dpos0 s ! idx;
         lower = c - d;
         upper = c + d;
         b1 = b\<lparr>b_sup := (b_sup b)[idx := upper], b_inf := (b_inf b)[idx := lower]\<rparr>;
         lower = (if \<not> h1_allow_pos0_neg s \<and> lower < 0 then 0 else lower)
     in if \<not> (h1_check_mask s \<and> h1_cmask s ! idx \<noteq> 0)
        then (let b2 = (if upper > b_max b1 then b1\<lparr>b_max := upper\<rparr> else b1)
              in (if lower < b_min b2 then b2\<lparr>b_min := lower\<rparr> else b2))
        else b1)"

fun calc_boundaries_loop :: "histo1d \<Rightarrow> nat list \<Rightarrow> bounds1d \<Rightarrow> bounds1d" where
  "calc_boundaries_loop s [] b = b"
| "calc_boundaries_loop s (idx # rest) b =
     calc_boundaries_loop s rest (calc_boundaries_step s idx b)"

definition calc_boundaries ::
  "(real \<Rightarrow> real) \<Rightarrow> histo1d \<Rightarrow> (real \<times> real) option \<Rightarrow> error + histo1d" where
  "calc_boundaries cub s pos0_range =
    (case h1_cpos0 s of
       [] \<Rightarrow> Inl UncheckedRead
     | first # _ \<Rightarrow>
        (let seed = (if \<not> h1_allow_pos0_neg s \<and> first < 0 then 0 else first);
             b = calc_boundaries_loop s [0 ..< length (h1_cpos0 s)]
                   \<lparr>b_sup = h1_cpos0_sup s, b_inf = h1_cpos0_inf s,
                    b_max = seed, b_min = seed\<rparr>;
             s1 = s\<lparr>h1_cpos0_sup := b_sup b, h1_cpos0_inf := b_inf b\<rparr>;
             s2 = (case pos0_range of
                     Some (lo, hi) \<Rightarrow> s1\<lparr>h1_pos0_min := lo, h1_pos0_maxin := hi\<rparr>
                   | None \<Rightarrow> s1\<lparr>h1_pos0_min := b_min b, h1_pos0_maxin := b_max b\<rparr>);
             s3 = (if \<not> h1_allow_pos0_neg s \<and> h1_pos0_min s2 < 0
                   then s2\<lparr>h1_pos0_min := 0\<rparr> else s2)
         in Inr (s3\<lparr>h1_pos0_max := cub (h1_pos0_maxin s3)\<rparr>)))"

subsection \<open>HistoBBox1d.calc\_boundaries\_nosplit\<close>

definition calc_boundaries_nosplit_step ::
  "histo1d \<Rightarrow> nat \<Rightarrow> real \<times> real \<Rightarrow> real \<times> real" where
  "calc_boundaries_nosplit_step s idx mm =
    (let c = h1_cpos0 s ! idx;
         c = (if \<not> h1_allow_pos0_neg s \<and> c < 0 then 0 else c)
     in if \<not> (h1_check_mask s \<and> h1_cmask s ! idx \<noteq> 0)
        then (let pos0_max = (if c > fst mm then c else fst mm);
                  pos0_min = (if c < snd mm then c else snd mm)
              in (pos0_max, pos0_min))
        else mm)"

fun calc_boundaries_nosplit_loop ::
  "histo1d \<Rightarrow> nat list \<Rightarrow> real \<times> real \<Rightarrow> real \<times> real" where
  "calc_boundaries_nosplit_loop s [] mm = mm"
| "calc_boundaries_nosplit_loop s (idx # rest) mm =
     calc_boundaries_nosplit_loop s rest (calc_boundaries_nosplit_step s idx mm)"

definition calc_boundaries_nosplit ::
  "(real \<Rightarrow> real) \<Rightarrow> histo1d \<Rightarrow> (real \<times> real) option \<Rightarrow> error + histo1d" where
  "calc_boundaries_nosplit cub s pos0_range =
    (let r = (case pos0_range of
                Some (lo, hi) \<Rightarrow> Inr (s\<lparr>h1_pos0_min := lo, h1_pos0_maxin := hi\<rparr>)
              | None \<Rightarrow>
                 (case h1_cpos0 s of
                    [] \<Rightarrow> Inl UncheckedRead
                  | first # _ \<Rightarrow>
                     (let seed = (if \<not> h1_allow_pos0_neg s \<and> first < 0 then 0 else first);
                          mm = calc_boundaries_nosplit_loop s
                                 [0 ..< length (h1_cpos0 s)] (seed, seed)
                      in Inr (s\<lparr>h1_pos0_min := snd mm, h1_pos0_maxin := fst mm\<rparr>))))
     in case r of
          Inl e \<Rightarrow> Inl e
        | Inr s2 \<Rightarrow>
           (let s3 = (if \<not> h1_allow_pos0_neg s \<and> h1_pos0_min s2 < 0
                      then s2\<lparr>h1_pos0_min := 0\<rparr> else s2)
            in Inr (s3\<lparr>h1_pos0_max := cub (h1_pos0_maxin s3)\<rparr>)))"

subsection \<open>HistoBBox1d.calc\_lut\<close>

text \<open>The tests that make an iteration \<open>continue\<close> before any bin is computed.\<close>

definition masked1d :: "histo1d \<Rightarrow> nat \<Rightarrow> bool" where
  "masked1d s idx = (h1_check_mask s \<and> h1_cmask s ! idx \<noteq> 0)"

definition pos1_rejected :: "histo1d \<Rightarrow> nat \<Rightarrow> bool" where
  "pos1_rejected s idx =
    (h1_check_pos1 s \<and>
     (h1_cpos1_max s ! idx < h1_pos1_min s \<or> h1_cpos1_min s ! idx > h1_pos1_max s))"

text \<open>The rest of the loop body of \<open>calc_lut\<close>, from the two casts on: the \<open>cinsert\<close>
  calls made for pixel \<open>idx\<close> with continuous bin positions \<open>fbin0_min\<close>, \<open>fbin0_max\<close>.\<close>

definition split1d :: "int \<Rightarrow> nat \<Rightarrow> real \<Rightarrow> real \<Rightarrow> lut_entry list" where
  "split1d bins idx fbin0_min fbin0_max =
    (let bin0_min = c_int fbin0_min;
         bin0_max = c_int fbin0_max
     in if bin0_max < 0 \<or> bin0_min \<ge> bins then []
        else
          (let bin0_max = (if bin0_max \<ge> bins then bins - 1 else bin0_max);
               bin0_min = (if bin0_min < 0 then 0 else bin0_min)
           in if bin0_min = bin0_max then [(bin0_min, idx, 1)]
              else
                (let inv_area = 1 / (fbin0_max - fbin0_min);
                     delta_left = real_of_int (bin0_min + 1) - fbin0_min;
                     delta_right = fbin0_max - real_of_int bin0_max
                 in [(bin0_min, idx, inv_area * delta_left),
                     (bin0_max, idx, inv_area * delta_right)]
                    @ (if bin0_min + 1 < bin0_max
                       then map (\<lambda>i. (i, idx, inv_area)) [bin0_min + 1 .. bin0_max - 1]
                       else []))))"

definition calc_lut_pixel :: "histo1d \<Rightarrow> nat \<Rightarrow> lut_entry list" where
  "calc_lut_pixel s idx =
    (if masked1d s idx then []
     else
       (let min0 = h1_cpos0_inf s ! idx;
            max0 = h1_cpos0_sup s ! idx
        in if pos1_rejected s idx then []
           else
             (let fbin0_min = get_bin_number min0 (h1_pos0_min s) (h1_delta s);
                  fbin0_max = get_bin_number max0 (h1_pos0_min s) (h1_delta s)
              in split1d (h1_bins s) idx fbin0_min fbin0_max)))"

definition calc_lut :: "histo1d \<Rightarrow> lut_entry list" where
  "calc_lut s = concat (map (calc_lut_pixel s) [0 ..< h1_size s])"

subsection \<open>HistoBBox1d.calc\_lut\_nosplit\<close>

definition calc_lut_nosplit_pixel :: "histo1d \<Rightarrow> nat \<Rightarrow> lut_entry list" where
  "calc_lut_nosplit_pixel s idx =
    (if masked1d s idx then []
     else
       (let pos0 = h1_cpos0 s ! idx
        in if pos1_rejected s idx then []
           else
             (let fbin0 = get_bin_number pos0 (h1_pos0_min s) (h1_delta s);
                  bin0 = c_int fbin0
              in if bin0 < 0 \<or> bin0 \<ge> h1_bins s then []
                 else [(bin0, idx, onef)])))"

definition calc_lut_nosplit :: "histo1d \<Rightarrow> lut_entry list" where
  "calc_lut_nosplit s = concat (map (calc_lut_nosplit_pixel s) [0 ..< h1_size s])"

subsection \<open>HistoBBox1d.\_\_init\_\_\<close>

text \<open>\<open>numpy.linspace(start, stop, num)\<close>: \<open>num\<close> evenly spaced samples, both ends
  included; a negative \<open>num\<close> raises \<open>ValueError\<close>.\<close>

definition linspace :: "real \<Rightarrow> real \<Rightarrow> int \<Rightarrow> error + real list" where
  "linspace start stop num =
    (if num < 0 then Inl ValueError
     else if num = 1 then Inr [start]
     else Inr (map (\<lambda>i. start + real i * ((stop - start) / real_of_int (num - 1)))
                [0 ..< nat num]))"

definition splitting_warning :: string where
  "splitting_warning = ''Pixel splitting desactivated !''"

text \<open>Lines 112--115: \<open>delta_pos0\<close> is dropped, with a warning, when it has no \<open>size\<close>
  or a size other than that of \<open>pos0\<close>.\<close>

definition usable_delta_pos0 :: "init1d_args \<Rightarrow> real list option" where
  "usable_delta_pos0 a =
    (case a1_delta_pos0 a of
       None \<Rightarrow> None
     | Some d \<Rightarrow> if length d \<noteq> length (a1_pos0 a) then None else Some d)"

text \<open>The instance before its first attribute is computed. \<open>numpy.empty_like\<close> leaves
  \<open>cpos0_sup\<close> and \<open>cpos0_inf\<close> uninitialised; \<open>calc_boundaries\<close> writes every slot before
  any is read, so the initial content (here 0) is never observed. Attributes that the
  source leaves unset or \<open>None\<close> are given an empty list or 0 and are never read.\<close>

definition fresh1d :: "init1d_args \<Rightarrow> histo1d" where
  "fresh1d a =
    \<lparr>h1_size = length (a1_pos0 a),
     h1_bins = a1_bins a,
     h1_allow_pos0_neg = a1_allow_pos0_neg a,
     h1_check_mask = (a1_mask a \<noteq> None),
     h1_cmask = (case a1_mask a of None \<Rightarrow> [] | Some m \<Rightarrow> m),
     h1_cpos0 = a1_pos0 a,
     h1_dpos0 = (case usable_delta_pos0 a of None \<Rightarrow> [] | Some d \<Rightarrow> d),
     h1_cpos0_sup = (case usable_delta_pos0 a of None \<Rightarrow> []
                     | Some d \<Rightarrow> replicate (length (a1_pos0 a)) 0),
     h1_cpos0_inf = (case usable_delta_pos0 a of None \<Rightarrow> []
                     | Some d \<Rightarrow> replicate (length (a1_pos0 a)) 0),
     h1_pos0_min = 0, h1_pos0_maxin = 0, h1_pos0_max = 0,
     h1_check_pos1 = False, h1_cpos1_min = [], h1_cpos1_max = [],
     h1_pos1_min = 0, h1_pos1_max = 0,
     h1_delta = 0,
     h1_lut = [], h1_bin_centers = [],
     h1_warnings = (if usable_delta_pos0 a = None then [splitting_warning] else [])\<rparr>"

text \<open>Lines 142--153: the secondary filter is set up only when \<open>pos1_range\<close> is given.\<close>

definition setup_pos1 :: "(real \<Rightarrow> real) \<Rightarrow> init1d_args \<Rightarrow> histo1d \<Rightarrow> error + histo1d" where
  "setup_pos1 cub a s =
    (case a1_pos1_range a of
       None \<Rightarrow> Inr (s\<lparr>h1_check_pos1 := False, h1_cpos1_min := [], h1_pos1_max := 0\<rparr>)
     | Some (lo, hi) \<Rightarrow>
        (case a1_pos1 a of
           None \<Rightarrow> Inl AttributeError
         | Some p1 \<Rightarrow>
            if length p1 \<noteq> h1_size s then Inl (AssertionError ''pos1 size'')
            else
              (case a1_delta_pos1 a of
                 None \<Rightarrow> Inl AttributeError
               | Some d1 \<Rightarrow>
                  if length d1 \<noteq> h1_size s
                  then Inl (AssertionError ''delta_pos1.size == self.size'')
                  else Inr (s\<lparr>h1_check_pos1 := True,
                              h1_cpos1_min := map2 (\<lambda>p d. p - d) p1 d1,
                              h1_cpos1_max := map2 (\<lambda>p d. p + d) p1 d1,
                              h1_pos1_min := lo,
                              h1_pos1_max := cub hi\<rparr>))))"

text \<open>Lines 112--155 of \<open>__init__\<close>: everything up to and including the bin width.\<close>

definition HistoBBox1d_setup :: "(real \<Rightarrow> real) \<Rightarrow> init1d_args \<Rightarrow> error + histo1d" where
  "HistoBBox1d_setup cub a =
    (if (case a1_mask a of None \<Rightarrow> False | Some m \<Rightarrow> length m \<noteq> length (a1_pos0 a))
     then Inl (AssertionError ''mask size'')
     else
       (case (if usable_delta_pos0 a = None
              then calc_boundaries_nosplit cub (fresh1d a) (a1_pos0_range a)
              else calc_boundaries cub (fresh1d a) (a1_pos0_range a)) of
          Inl e \<Rightarrow> Inl e
        | Inr s1 \<Rightarrow>
           (case setup_pos1 cub a s1 of
              Inl e \<Rightarrow> Inl e
            | Inr s2 \<Rightarrow>
               Inr (s2\<lparr>h1_delta :=
                         (h1_pos0_max s2 - h1_pos0_min s2) / real_of_int (a1_bins a)\<rparr>))))"

text \<open>Lines 157--173: the LUT and the bin centres.\<close>

definition HistoBBox1d_init :: "(real \<Rightarrow> real) \<Rightarrow> init1d_args \<Rightarrow> error + histo1d" where
  "HistoBBox1d_init cub a =
    (case HistoBBox1d_setup cub a of
       Inl e \<Rightarrow> Inl e
     | Inr s \<Rightarrow>
        (let lut = (if usable_delta_pos0 a \<noteq> None then calc_lut s else calc_lut_nosplit s)
         in case linspace (h1_pos0_min s + 0.5 * h1_delta s)
                          (h1_pos0_max s - 0.5 * h1_delta s) (h1_bins s) of
              Inl e \<Rightarrow> Inl e
            | Inr centers \<Rightarrow> Inr (s\<lparr>h1_lut := lut, h1_bin_centers := centers\<rparr>)))"

section \<open>Two-dimensional regrouping (HistoBBox2d)\<close>

record histo2d =
  h2_size :: nat
  h2_bins0 :: int
  h2_bins1 :: int
  h2_chiDiscAtPi :: int
  h2_allow_pos0_neg :: bool
  h2_check_mask :: bool
  h2_cmask :: "mask_t list"
  h2_cpos0 :: "real list"
  h2_dpos0 :: "real list"
  h2_cpos0_sup :: "real list"
  h2_cpos0_inf :: "real list"
  h2_cpos1 :: "real list"
  h2_dpos1 :: "real list"
  h2_cpos1_sup :: "real list"
  h2_cpos1_inf :: "real list"
  h2_pos0_min :: real
  h2_pos0_maxin :: real
  h2_pos0_max :: real
  h2_pos1_min :: real
  h2_pos1_maxin :: real
  h2_pos1_max :: real
  h2_delta0 :: real
  h2_delta1 :: real
  h2_lut :: "lut_entry list"
  h2_bin_centers0 :: "real list"
  h2_bin_centers1 :: "real list"

text \<open>\<open>bins\<close> is a pair, or a scalar used for both axes (the \<open>TypeError\<close> branch).\<close>

datatype bins_arg = BinsPair int int | BinsScalar int

record init2d_args =
  a2_pos0 :: "real list"
  a2_delta_pos0 :: "real list option"
  a2_pos1 :: "real list"
  a2_delta_pos1 :: "real list"
  a2_bins :: bins_arg
  a2_pos0_range :: "(real \<times> real) option"
  a2_pos1_range :: "(real \<times> real) option"
  a2_mask :: "mask_t list option"
  a2_allow_pos0_neg :: bool
  a2_chiDiscAtPi :: bool

subsection \<open>HistoBBox2d.calc\_boundaries\<close>

record bounds2d =
  b2_sup0 :: "real list"
  b2_inf0 :: "real list"
  b2_sup1 :: "real list"
  b2_inf1 :: "real list"
  b2_max0 :: real
  b2_min0 :: real
  b2_max1 :: real
  b2_min1 :: real

text \<open>One iteration; here the clamps come before the stores.\<close>

definition calc_boundaries2d_step :: "real \<Rightarrow> histo2d \<Rightarrow> nat \<Rightarrow> bounds2d \<Rightarrow> bounds2d" where
  "calc_boundaries2d_step pic s idx b =
    (let c0 = h2_cpos0 s ! idx;
         d0 = h2_dpos0 s ! idx;
         lower0 = c0 - d0;
         upper0 = c0 + d0;
         c1 = h2_cpos1 s ! idx;
         d1 = h2_dpos1 s ! idx;
         lower1 = c1 - d1;
         upper1 = c1 + d1;
         lower0 = (if \<not> h2_allow_pos0_neg s \<and> lower0 < 0 then 0 else lower0);
         upper1 = (if upper1 > real_of_int (2 - h2_chiDiscAtPi s) * pic
                   then real_of_int (2 - h2_chiDiscAtPi s) * pic else upper1);
         lower1 = (if lower1 < real_of_int (- h2_chiDiscAtPi s) * pic
                   then real_of_int (- h2_chiDiscAtPi s) * pic else lower1);
         b1 = b\<lparr>b2_sup0 := (b2_sup0 b)[idx := upper0],
                b2_inf0 := (b2_inf0 b)[idx := lower0],
                b2_sup1 := (b2_sup1 b)[idx := upper1],
                b2_inf1 := (b2_inf1 b)[idx := lower1]\<rparr>
     in if \<not> (h2_check_mask s \<and> h2_cmask s ! idx \<noteq> 0)
        then (let b2 = (if upper0 > b2_max0 b1 then b1\<lparr>b2_max0 := upper0\<rparr> else b1);
                  b3 = (if lower0 < b2_min0 b2 then b2\<lparr>b2_min0 := lower0\<rparr> else b2);
                  b4 = (if upper1 > b2_max1 b3 then b3\<lparr>b2_max1 := upper1\<rparr> else b3)
              in (if lower1 < b2_min1 b4 then b4\<lparr>b2_min1 := lower1\<rparr> else b4))
        else b1)"

fun calc_boundaries2d_loop :: "real \<Rightarrow> histo2d \<Rightarrow> nat list \<Rightarrow> bounds2d \<Rightarrow> bounds2d" where
  "calc_boundaries2d_loop pic s [] b = b"
| "calc_boundaries2d_loop pic s (idx # rest) b =
     calc_boundaries2d_loop pic s rest (calc_boundaries2d_step pic s idx b)"

definition calc_boundaries2d ::
  "(real \<Rightarrow> real) \<Rightarrow> real \<Rightarrow> histo2d \<Rightarrow> (real \<times> real) option \<Rightarrow> (real \<times> real) option
     \<Rightarrow> error + histo2d" where
  "calc_boundaries2d cub pic s pos0_range pos1_range =
    (case (h2_cpos0 s, h2_cpos1 s) of
       (first0 # _, first1 # _) \<Rightarrow>
        (let b = calc_boundaries2d_loop pic s [0 ..< length (h2_cpos0 s)]
                   \<lparr>b2_sup0 = h2_cpos0_sup s, b2_inf0 = h2_cpos0_inf s,
                    b2_sup1 = h2_cpos1_sup s, b2_inf1 = h2_cpos1_inf s,
                    b2_max0 = first0, b2_min0 = first0,
                    b2_max1 = first1, b2_min1 = first1\<rparr>;
             s1 = (case pos0_range of
                     Some (lo, hi) \<Rightarrow> s\<lparr>h2_pos0_min := lo, h2_pos0_maxin := hi\<rparr>
                   | None \<Rightarrow> s\<lparr>h2_pos0_min := b2_min0 b, h2_pos0_maxin := b2_max0 b\<rparr>);
             s2 = (case pos1_range of
                     Some (lo, hi) \<Rightarrow> s1\<lparr>h2_pos1_min := lo, h2_pos1_maxin := hi\<rparr>
                   | None \<Rightarrow> s1\<lparr>h2_pos1_min := b2_min1 b, h2_pos1_maxin := b2_max1 b\<rparr>);
             s3 = (if \<not> h2_allow_pos0_neg s \<and> h2_pos0_min s2 < 0
                   then s2\<lparr>h2_pos0_min := 0\<rparr> else s2)
         in Inr (s3\<lparr>h2_pos0_max := cub (h2_pos0_maxin s3),
                    h2_cpos0_sup := b2_sup0 b, h2_cpos0_inf := b2_inf0 b,
                    h2_pos1_max := cub (h2_pos1_maxin s3),
                    h2_cpos1_sup := b2_sup1 b, h2_cpos1_inf := b2_inf1 b\<rparr>))
     | _ \<Rightarrow> Inl UncheckedRead)"

subsection \<open>HistoBBox2d.calc\_lut\<close>

definition masked2d :: "histo2d \<Rightarrow> nat \<Rightarrow> bool" where
  "masked2d s idx = (h2_check_mask s \<and> h2_cmask s ! idx \<noteq> 0)"

text \<open>The loop body of \<open>calc_lut\<close> from the four casts on: the \<open>cinsert\<close> calls made for
  pixel \<open>idx\<close>, in program order.\<close>

definition split2d ::
  "int \<Rightarrow> int \<Rightarrow> nat \<Rightarrow> real \<Rightarrow> real \<Rightarrow> real \<Rightarrow> real \<Rightarrow> lut_entry list" where
  "split2d bins0 bins1 idx fbin0_min fbin0_max fbin1_min fbin1_max =
    (let bin0_min = c_int fbin0_min;
         bin0_max = c_int fbin0_max;
         bin1_min = c_int fbin1_min;
         bin1_max = c_int fbin1_max
     in if bin0_max < 0 \<or> bin0_min \<ge> bins0 \<or> bin1_max < 0 \<or> bin1_min \<ge> bins1 then []
        else
          (let bin0_max = (if bin0_max \<ge> bins0 then bins0 - 1 else bin0_max);
               bin0_min = (if bin0_min < 0 then 0 else bin0_min);
               bin1_max = (if bin1_max \<ge> bins1 then bins1 - 1 else bin1_max);
               bin1_min = (if bin1_min < 0 then 0 else bin1_min)
           in if bin0_min = bin0_max then
                (if bin1_min = bin1_max then [(bin0_min * bins1 + bin1_min, idx, 1)]
                 else
                   (let delta_down = real_of_int (bin1_min + 1) - fbin1_min;
                        delta_up = fbin1_max - real_of_int bin1_max;
                        inv_area = 1 / (fbin1_max - fbin1_min)
                    in [(bin0_min * bins1 + bin1_min, idx, inv_area * delta_down),
                        (bin0_min * bins1 + bin1_max, idx, inv_area * delta_up)]
                       @ map (\<lambda>j. (bin0_min * bins1 + j, idx, inv_area))
                           [bin1_min + 1 .. bin1_max - 1]))
              else
                (if bin1_min = bin1_max then
                   (let inv_area = 1 / (fbin0_max - fbin0_min);
                        delta_left = real_of_int (bin0_min + 1) - fbin0_min;
                        delta_right = fbin0_max - real_of_int bin0_max
                    in [(bin0_min * bins1 + bin1_min, idx, inv_area * delta_left),
                        (bin0_max * bins1 + bin1_min, idx, inv_area * delta_right)]
                       @ map (\<lambda>i. (i * bins1 + bin1_min, idx, inv_area))
                           [bin0_min + 1 .. bin0_max - 1])
                 else
                   (let delta_left = real_of_int (bin0_min + 1) - fbin0_min;
                        delta_right = fbin0_max - real_of_int bin0_max;
                        delta_down = real_of_int (bin1_min + 1) - fbin1_min;
                        delta_up = fbin1_max - real_of_int bin1_max;
                        inv_area = 1 / ((fbin0_max - fbin0_min) * (fbin1_max - fbin1_min))
                    in [(bin0_min * bins1 + bin1_min, idx, inv_area * delta_left * delta_down),
                        (bin0_min * bins1 + bin1_max, idx, inv_area * delta_left * delta_up),
                        (bin0_max * bins1 + bin1_min, idx, inv_area * delta_right * delta_down),
                        (bin0_max * bins1 + bin1_max, idx, inv_area * delta_right * delta_up)]
                       @ concat (map (\<lambda>i.
                             [(i * bins1 + bin1_min, idx, inv_area * delta_down)]
                             @ map (\<lambda>j. (i * bins1 + j, idx, inv_area))
                                 [bin1_min + 1 .. bin1_max - 1]
                             @ [(i * bins1 + bin1_max, idx, inv_area * delta_up)])
                           [bin0_min + 1 .. bin0_max - 1])
                       @ concat (map (\<lambda>j.
                             [(bin0_min * bins1 + j, idx, inv_area * delta_left),
                              (bin0_max * bins1 + j, idx, inv_area * delta_right)])
                           [bin1_min + 1 .. bin1_max - 1])))))"

definition calc_lut2d_pixel :: "histo2d \<Rightarrow> nat \<Rightarrow> lut_entry list" where
  "calc_lut2d_pixel s idx =
    (if masked2d s idx then []
     else
       (let min0 = h2_cpos0_inf s ! idx;
            max0 = h2_cpos0_sup s ! idx;
            min1 = h2_cpos1_inf s ! idx;
            max1 = h2_cpos1_sup s ! idx;
            fbin0_min = get_bin_number min0 (h2_pos0_min s) (h2_delta0 s);
            fbin0_max = get_bin_number max0 (h2_pos0_min s) (h2_delta0 s);
            fbin1_min = get_bin_number min1 (h2_pos1_min s) (h2_delta1 s);
            fbin1_max = get_bin_number max1 (h2_pos1_min s) (h2_delta1 s)
        in split2d (h2_bins0 s) (h2_bins1 s) idx fbin0_min fbin0_max fbin1_min fbin1_max))"

definition calc_lut2d :: "histo2d \<Rightarrow> lut_entry list" where
  "calc_lut2d s = concat (map (calc_lut2d_pixel s) [0 ..< h2_size s])"

subsection \<open>HistoBBox2d.\_\_init\_\_\<close>

text \<open>Lines 443--451: each bin count that is not positive becomes 1.\<close>

definition floor_bins :: "bins_arg \<Rightarrow> int \<times> int" where
  "floor_bins b =
    (let (bins0, bins1) = (case b of BinsPair b0 b1 \<Rightarrow> (b0, b1) | BinsScalar n \<Rightarrow> (n, n));
         bins0 = (if bins0 \<le> 0 then 1 else bins0);
         bins1 = (if bins1 \<le> 0 then 1 else bins1)
     in (bins0, bins1))"

text \<open>The instance after the stores of lines 436--475, before \<open>calc_boundaries\<close>.
  As in one dimension, the uninitialised views are written in full before being read.\<close>

definition fresh2d :: "init2d_args \<Rightarrow> real list \<Rightarrow> histo2d" where
  "fresh2d a d0 =
    \<lparr>h2_size = length (a2_pos0 a),
     h2_bins0 = fst (floor_bins (a2_bins a)),
     h2_bins1 = snd (floor_bins (a2_bins a)),
     h2_chiDiscAtPi = (if a2_chiDiscAtPi a then 1 else 0),
     h2_allow_pos0_neg = a2_allow_pos0_neg a,
     h2_check_mask = (a2_mask a \<noteq> None),
     h2_cmask = (case a2_mask a of None \<Rightarrow> [] | Some m \<Rightarrow> m),
     h2_cpos0 = a2_pos0 a,
     h2_dpos0 = d0,
     h2_cpos0_sup = replicate (length (a2_pos0 a)) 0,
     h2_cpos0_inf = replicate (length (a2_pos0 a)) 0,
     h2_cpos1 = a2_pos1 a,
     h2_dpos1 = a2_delta_pos1 a,
     h2_cpos1_sup = replicate (length (a2_pos1 a)) 0,
     h2_cpos1_inf = replicate (length (a2_pos1 a)) 0,
     h2_pos0_min = 0, h2_pos0_maxin = 0, h2_pos0_max = 0,
     h2_pos1_min = 0, h2_pos1_maxin = 0, h2_pos1_max = 0,
     h2_delta0 = 0, h2_delta1 = 0,
     h2_lut = [], h2_bin_centers0 = [], h2_bin_centers1 = []\<rparr>"

text \<open>The constructor. \<open>delta_pos0.size\<close> is evaluated by the first assertion, so an absent
  \<open>delta_pos0\<close> raises \<open>AttributeError\<close> there; the later test \<open>delta_pos0 is not None\<close>
  is then always true, and its \<open>else\<close> branch (a call of \<open>calc_lut_nosplit\<close>, which this
  class does not define) is never reached.\<close>

definition HistoBBox2d_init ::
  "(real \<Rightarrow> real) \<Rightarrow> real \<Rightarrow> init2d_args \<Rightarrow> error + histo2d" where
  "HistoBBox2d_init cub pic a =
    (case a2_delta_pos0 a of
       None \<Rightarrow> Inl AttributeError
     | Some d0 \<Rightarrow>
        if length d0 \<noteq> length (a2_pos0 a)
        then Inl (AssertionError ''delta_pos0.size == self.size'')
        else if length (a2_pos1 a) \<noteq> length (a2_pos0 a)
        then Inl (AssertionError ''pos1 size'')
        else if length (a2_delta_pos1 a) \<noteq> length (a2_pos0 a)
        then Inl (AssertionError ''delta_pos1.size == self.size'')
        else if (case a2_mask a of None \<Rightarrow> False | Some m \<Rightarrow> length m \<noteq> length (a2_pos0 a))
        then Inl (AssertionError ''mask size'')
        else
          (case calc_boundaries2d cub pic (fresh2d a d0) (a2_pos0_range a) (a2_pos1_range a) of
             Inl e \<Rightarrow> Inl e
           | Inr s1 \<Rightarrow>
              (let s2 = s1\<lparr>h2_delta0 := (h2_pos0_max s1 - h2_pos0_min s1) / real_of_int (h2_bins0 s1),
                           h2_delta1 := (h2_pos1_max s1 - h2_pos1_min s1) / real_of_int (h2_bins1 s1)\<rparr>
               in case linspace (h2_pos0_min s2 + 0.5 * h2_delta0 s2)
                                (h2_pos0_max s2 - 0.5 * h2_delta0 s2) (h2_bins0 s2) of
                    Inl e \<Rightarrow> Inl e
                  | Inr centers0 \<Rightarrow>
                     (case linspace (h2_pos1_min s2 + 0.5 * h2_delta1 s2)
                                    (h2_pos1_max s2 - 0.5 * h2_delta1 s2) (h2_bins1 s2) of
                        Inl e \<Rightarrow> Inl e
                      | Inr centers1 \<Rightarrow>
                         Inr (s2\<lparr>h2_lut := calc_lut2d s2,
                                h2_bin_centers0 := centers0,
                                h2_bin_centers1 := centers1\<rparr>)))))"

section \<open>Range-reduction kernels (OpenCL)\<close>

text \<open>
  The two kernels \<open>reduce1\<close> and \<open>reduce2\<close> compute a minimum and a maximum of a buffer.
  A \<open>float\<close> is a finite value or one of the two infinities the kernel starts from
  (no NaN arises from comparisons alone). \<open>WORKGROUP_SIZE\<close> is a macro defined at
  build time and \<open>get_local_size(0)\<close> the local size chosen at launch: both are the
  parameter \<open>wg\<close>. The number of workgroups of the launch of \<open>reduce1\<close> is the
  parameter \<open>ngroups\<close>; \<open>reduce2\<close> runs as a single workgroup.
\<close>

datatype cfloat = NegInf | Finite real | PosInf

text \<open>The comparison \<open>a < b\<close> of two floats.\<close>

fun fless :: "cfloat \<Rightarrow> cfloat \<Rightarrow> bool" where
  "fless (Finite a) (Finite b) = (a < b)"
| "fless NegInf NegInf = False"
| "fless NegInf b = True"
| "fless a PosInf = (a \<noteq> PosInf)"
| "fless a b = False"

type_synonym float2 = "cfloat \<times> cfloat"

datatype kernel_fault = OutOfBounds | NoReturn

text \<open>Lines 47--49: one element folded into the accumulator \<open>(x, y)\<close>.\<close>

definition absorb :: "float2 \<Rightarrow> cfloat \<Rightarrow> float2" where
  "absorb accumulator element =
    ((if fless (fst accumulator) element then fst accumulator else element),
     (if fless element (snd accumulator) then snd accumulator else element))"

text \<open>Lines 46--51: the strided loop of one thread.\<close>

partial_function (option) stride_loop ::
  "cfloat list \<Rightarrow> int \<Rightarrow> int \<Rightarrow> int \<Rightarrow> float2 \<Rightarrow> float2 option" where
  "stride_loop buffer len global_size global_index accumulator =
    (if global_index < len
     then stride_loop buffer len global_size (global_index + global_size)
            (absorb accumulator (buffer ! nat global_index))
     else Some accumulator)"

declare stride_loop.simps [code]

text \<open>Lines 68--71: the merge of two scratch slots.\<close>

definition merge2 :: "float2 \<Rightarrow> float2 \<Rightarrow> float2" where
  "merge2 mine other =
    ((if fless (fst mine) (fst other) then fst mine else fst other),
     (if fless (snd other) (snd mine) then snd mine else snd other))"

text \<open>
  Modelled from the spec: the identifier \<open>thread_id_loc\<close> tested in both kernels is not
  declared in the sources at hand. The specification describes the members of a
  workgroup halving their count each round; \<open>thread_id_loc\<close> is taken to be the local
  index of the thread.
\<close>

definition thread_id_loc :: "nat \<Rightarrow> nat" where
  "thread_id_loc local_index = local_index"

text \<open>
  One round between two barriers, for the whole workgroup: every thread whose
  \<open>thread_id_loc\<close> is below \<open>active_threads\<close> replaces its slot by the merge with the slot
  \<open>active_threads\<close> further on. The slots read and the slots written by different threads
  are disjoint, so the round is a simultaneous update.
\<close>

definition halve_round :: "nat \<Rightarrow> float2 list \<Rightarrow> float2 list" where
  "halve_round active_threads scratch =
    map (\<lambda>local_index.
          if thread_id_loc local_index < active_threads
          then merge2 (scratch ! local_index) (scratch ! (local_index + active_threads))
          else scratch ! local_index)
        [0 ..< length scratch]"

text \<open>Lines 63--81 and 101--119: the loop \<open>while (active_threads != 2)\<close>. The counter is
  a C \<open>int\<close> that is never negative, so its halving is the division of natural numbers.\<close>

partial_function (option) halving :: "nat \<Rightarrow> float2 list \<Rightarrow> float2 list option" where
  "halving active_threads scratch =
    (if active_threads \<noteq> 2
     then halving (active_threads div 2) (halve_round (active_threads div 2) scratch)
     else Some scratch)"

declare halving.simps [code]

text \<open>\<open>reduce1\<close> for the workgroup \<open>g\<close>: the value stored in \<open>preresult[g]\<close>.\<close>

definition reduce1_group :: "nat \<Rightarrow> nat \<Rightarrow> cfloat list \<Rightarrow> int \<Rightarrow> nat \<Rightarrow> float2 option" where
  "reduce1_group wg ngroups buffer len g =
    (case those (map (\<lambda>local_index.
                   stride_loop buffer len (int (ngroups * wg)) (int (g * wg + local_index))
                     (PosInf, NegInf))
                 [0 ..< wg]) of
       None \<Rightarrow> None
     | Some scratch \<Rightarrow>
        (case halving wg scratch of
           None \<Rightarrow> None
         | Some scratch' \<Rightarrow> Some (scratch' ! 0)))"

definition reduce1 :: "nat \<Rightarrow> nat \<Rightarrow> cfloat list \<Rightarrow> int \<Rightarrow> kernel_fault + float2 list" where
  "reduce1 wg ngroups buffer len =
    (if int (length buffer) < len then Inl OutOfBounds
     else (case those (map (reduce1_group wg ngroups buffer len) [0 ..< ngroups]) of
             None \<Rightarrow> Inl NoReturn
           | Some preresult \<Rightarrow> Inr preresult))"

text \<open>\<open>reduce2\<close>: \<open>vload4(0, scratch)\<close> reads the first four floats of the scratch array,
  that is the slots 0 and 1.\<close>

definition reduce2 ::
  "nat \<Rightarrow> float2 list \<Rightarrow> kernel_fault + (cfloat \<times> cfloat \<times> cfloat \<times> cfloat)" where
  "reduce2 wg preresult =
    (if length preresult < wg then Inl OutOfBounds
     else (case halving wg (take wg preresult) of
             None \<Rightarrow> Inl NoReturn
           | Some scratch \<Rightarrow>
              Inr (fst (scratch ! 0), snd (scratch ! 0), fst (scratch ! 1), snd (scratch ! 1))))"

text \<open>The two stages in sequence.\<close>

definition reduce_minmax ::
  "nat \<Rightarrow> nat \<Rightarrow> cfloat list \<Rightarrow> kernel_fault + (cfloat \<times> cfloat \<times> cfloat \<times> cfloat)" where
  "reduce_minmax wg ngroups buffer =
    (case reduce1 wg ngroups buffer (int (length buffer)) of
       Inl f \<Rightarrow> Inl f
     | Inr preresult \<Rightarrow> reduce2 wg preresult)"

text \<open>The ramp buffer \<open>0, 1, ..., N - 1\<close>.\<close>

definition ramp :: "nat \<Rightarrow> cfloat list" where
  "ramp n = map (\<lambda>k. Finite (real k)) [0 ..< n]"

section \<open>Notions used to state the properties\<close>

text \<open>The entries of a LUT that belong to one pixel, and the sum of their weights.\<close>


definition pixel_entries :: "lut_entry list \<Rightarrow> nat \<Rightarrow> lut_entry list" where
  "pixel_entries lut idx = filter (\<lambda>e. entry_idx e = idx) lut"

definition weight_sum :: "lut_entry list \<Rightarrow> real" where
  "weight_sum es = sum_list (map entry_weight es)"

text \<open>The continuous bin positions that \<open>calc_lut\<close> computes for pixel \<open>idx\<close>.\<close>

definition fbin0_min_of :: "histo1d \<Rightarrow> nat \<Rightarrow> real" where
  "fbin0_min_of s idx = get_bin_number (h1_cpos0_inf s ! idx) (h1_pos0_min s) (h1_delta s)"

definition fbin0_max_of :: "histo1d \<Rightarrow> nat \<Rightarrow> real" where
  "fbin0_max_of s idx = get_bin_number (h1_cpos0_sup s ! idx) (h1_pos0_min s) (h1_delta s)"

text \<open>
  The one-dimensional split as the specification words it (section 4.3), for a pixel
  that needs no clamping: \<open>bin_min = floor(fmin)\<close>, \<open>bin_max = floor(fmax)\<close>; weight 1 when
  they are equal; otherwise the left fraction to \<open>bin_min\<close>, the right fraction to
  \<open>bin_max\<close> and \<open>inverse_area\<close> to every bin strictly between.
\<close>

definition spec_split1d :: "nat \<Rightarrow> real \<Rightarrow> real \<Rightarrow> lut_entry list" where
  "spec_split1d idx fmin fmax =
    (let bin_min = \<lfloor>fmin\<rfloor>; bin_max = \<lfloor>fmax\<rfloor>
     in if bin_min = bin_max then [(bin_min, idx, 1)]
        else (let inverse_area = 1 / (fmax - fmin)
              in [(bin_min, idx, inverse_area * (real_of_int (bin_min + 1) - fmin)),
                  (bin_max, idx, inverse_area * (fmax - real_of_int bin_max))]
                 @ map (\<lambda>i. (i, idx, inverse_area)) [bin_min + 1 .. bin_max - 1]))"


text \<open>An instance of the parameter \<open>cub\<close> with an absolute margin, used in evaluations
  whose outcome does not depend on the form or the size of the margin: the numbers
  \<open>1001\<close>, \<open>1501\<close>, \<open>1751\<close> and \<open>2001\<close> in their results come from it. The instance
  \<open>relative_cub\<close> below has the relative margin that the specification describes.\<close>

definition example_cub :: "real \<Rightarrow> real" where
  "example_cub m = m + 1 / 1000"

text \<open>Two pixels without splitting, range \<open>[1, 2]\<close> requested, ten bins; the first pixel
  lies at 0.95, half a bin width below the range.\<close>

definition below_range_args :: init1d_args where
  "below_range_args =
    \<lparr>a1_pos0 = [19/20, 3/2], a1_delta_pos0 = None, a1_pos1 = None, a1_delta_pos1 = None,
     a1_bins = 10, a1_pos0_range = Some (1, 2), a1_pos1_range = None, a1_mask = None,
     a1_allow_pos0_neg = False\<rparr>"

text \<open>The lower and upper bounds \<open>(c - d, c + d)\<close> of the pixels that are not masked.\<close>

definition unmasked_bounds :: "mask_t list \<Rightarrow> real list \<Rightarrow> real list \<Rightarrow> (real \<times> real) list" where
  "unmasked_bounds cmask pos0 delta_pos0 =
    map (\<lambda>(m, c, d). (c - d, c + d))
      (filter (\<lambda>(m, c, d). m = 0) (zip cmask (zip pos0 delta_pos0)))"

text \<open>Three pixels of half-extent 0.5 at 10, 1 and 2; the first one is masked.\<close>

definition masked_first_args :: init1d_args where
  "masked_first_args =
    \<lparr>a1_pos0 = [10, 1, 2], a1_delta_pos0 = Some [1/2, 1/2, 1/2], a1_pos1 = None,
     a1_delta_pos1 = None, a1_bins = 3, a1_pos0_range = None, a1_pos1_range = None,
     a1_mask = Some [1, 0, 0], a1_allow_pos0_neg = False\<rparr>"

text \<open>One pixel at 0.5 of half-extent 1, negative positions not allowed, in one and in
  two dimensions.\<close>

definition negative_lower_args :: init1d_args where
  "negative_lower_args =
    \<lparr>a1_pos0 = [1/2], a1_delta_pos0 = Some [1], a1_pos1 = None,
     a1_delta_pos1 = None, a1_bins = 3, a1_pos0_range = None, a1_pos1_range = None,
     a1_mask = None, a1_allow_pos0_neg = False\<rparr>"

definition negative_lower_args2d :: init2d_args where
  "negative_lower_args2d =
    \<lparr>a2_pos0 = [1/2], a2_delta_pos0 = Some [1], a2_pos1 = [0], a2_delta_pos1 = [1/10],
     a2_bins = BinsPair 3 1, a2_pos0_range = None, a2_pos1_range = None,
     a2_mask = None, a2_allow_pos0_neg = False, a2_chiDiscAtPi = True\<rparr>"

text \<open>A bin count of \<open>-2\<close> passed to the one-dimensional constructor.\<close>

definition negative_bins_args :: init1d_args where
  "negative_bins_args =
    \<lparr>a1_pos0 = [1, 2], a1_delta_pos0 = Some [1/2, 1/2], a1_pos1 = None,
     a1_delta_pos1 = None, a1_bins = - 2, a1_pos0_range = None, a1_pos1_range = None,
     a1_mask = None, a1_allow_pos0_neg = False\<rparr>"

text \<open>Two pixels with splitting and no secondary range.\<close>

definition pos1_args :: init1d_args where
  "pos1_args =
    \<lparr>a1_pos0 = [1/2, 3/2], a1_delta_pos0 = Some [1/4, 1/4], a1_pos1 = Some [0, 1],
     a1_delta_pos1 = Some [1/10, 1/10], a1_bins = 2, a1_pos0_range = None,
     a1_pos1_range = None, a1_mask = None, a1_allow_pos0_neg = False\<rparr>"



text \<open>The clamped integer bin range of one axis, as lines 313--318 and 625--635 compute
  it from the continuous positions, and the test that drops the pixel.\<close>

definition clamped_min :: "real \<Rightarrow> int" where
  "clamped_min fmin = (if c_int fmin < 0 then 0 else c_int fmin)"

definition clamped_max :: "int \<Rightarrow> real \<Rightarrow> int" where
  "clamped_max bins fmax = (if bins \<le> c_int fmax then bins - 1 else c_int fmax)"

definition axis_outside :: "int \<Rightarrow> real \<Rightarrow> real \<Rightarrow> bool" where
  "axis_outside bins fmin fmax = (c_int fmax < 0 \<or> bins \<le> c_int fmin)"

text \<open>
  The two-dimensional split as the specification words it (section 4.4, case 4). Along one
  axis a bin of the range takes the left edge fraction \<open>(bin_min + 1) - fmin\<close> if it is the
  first bin, the right edge fraction \<open>fmax - bin_max\<close> if it is the last, and the factor 1
  if it lies strictly between. The bin \<open>(bin0, bin1)\<close> of the rectangle receives
  \<open>inverse_area\<close> times the factors of its two coordinates, at the combined index
  \<open>bin0 * bins1 + bin1\<close>: corners get the product of two edge fractions, border bins one
  edge fraction, interior bins \<open>inverse_area\<close> alone.
\<close>

definition edge_fraction :: "int \<Rightarrow> int \<Rightarrow> real \<Rightarrow> real \<Rightarrow> int \<Rightarrow> real" where
  "edge_fraction bin_min bin_max fmin fmax i =
    (if i = bin_min then real_of_int (bin_min + 1) - fmin
     else if i = bin_max then fmax - real_of_int bin_max
     else 1)"

definition spec_split2d ::
  "int \<Rightarrow> nat \<Rightarrow> int \<Rightarrow> int \<Rightarrow> int \<Rightarrow> int \<Rightarrow> real \<Rightarrow> real \<Rightarrow> real \<Rightarrow> real \<Rightarrow> lut_entry list" where
  "spec_split2d bins1 idx bin0_min bin0_max bin1_min bin1_max fmin0 fmax0 fmin1 fmax1 =
    (let inverse_area = 1 / ((fmax0 - fmin0) * (fmax1 - fmin1))
     in concat (map (\<lambda>bin0.
          map (\<lambda>bin1.
                (bin0 * bins1 + bin1, idx,
                 inverse_area * edge_fraction bin0_min bin0_max fmin0 fmax0 bin0
                              * edge_fraction bin1_min bin1_max fmin1 fmax1 bin1))
              [bin1_min .. bin1_max])
        [bin0_min .. bin0_max]))"

text \<open>The continuous bin positions that the two-dimensional \<open>calc_lut\<close> computes for
  pixel \<open>idx\<close>.\<close>

definition fbin0_min2d :: "histo2d \<Rightarrow> nat \<Rightarrow> real" where
  "fbin0_min2d s idx = get_bin_number (h2_cpos0_inf s ! idx) (h2_pos0_min s) (h2_delta0 s)"

definition fbin0_max2d :: "histo2d \<Rightarrow> nat \<Rightarrow> real" where
  "fbin0_max2d s idx = get_bin_number (h2_cpos0_sup s ! idx) (h2_pos0_min s) (h2_delta0 s)"

definition fbin1_min2d :: "histo2d \<Rightarrow> nat \<Rightarrow> real" where
  "fbin1_min2d s idx = get_bin_number (h2_cpos1_inf s ! idx) (h2_pos1_min s) (h2_delta1 s)"

definition fbin1_max2d :: "histo2d \<Rightarrow> nat \<Rightarrow> real" where
  "fbin1_max2d s idx = get_bin_number (h2_cpos1_sup s ! idx) (h2_pos1_min s) (h2_delta1 s)"

text \<open>A one-pixel instance: 4 by 3 bins of width 1 from 0; the pixel covers
  \<open>[0.5, 2.5]\<close> by \<open>[0.25, 2.75]\<close>.\<close>

definition example2d :: histo2d where
  "example2d =
    \<lparr>h2_size = 1, h2_bins0 = 4, h2_bins1 = 3, h2_chiDiscAtPi = 1,
     h2_allow_pos0_neg = False, h2_check_mask = False, h2_cmask = [],
     h2_cpos0 = [3/2], h2_dpos0 = [1], h2_cpos0_sup = [5/2], h2_cpos0_inf = [1/2],
     h2_cpos1 = [3/2], h2_dpos1 = [5/4], h2_cpos1_sup = [11/4], h2_cpos1_inf = [1/4],
     h2_pos0_min = 0, h2_pos0_maxin = 4, h2_pos0_max = 4,
     h2_pos1_min = 0, h2_pos1_maxin = 3, h2_pos1_max = 3,
     h2_delta0 = 1, h2_delta1 = 1,
     h2_lut = [], h2_bin_centers0 = [], h2_bin_centers1 = []\<rparr>"


text \<open>
  Modelled from the spec: \<open>calc_upper_bound\<close> is defined in the included file
  \<open>regrid_common.pxi\<close>, which is not part of the sources at hand. The specification says
  that a small relative epsilon moves the bound above the maximum. This instance of the
  parameter \<open>cub\<close> takes the epsilon of single precision; whatever the epsilon, a relative
  bound maps 0 to 0, and the evaluations below that use this instance apply it to 0 only.
\<close>

definition relative_cub :: "real \<Rightarrow> real" where
  "relative_cub m = (if 0 < m then m * (1 + 1 / 2 ^ 23) else m * (1 - 1 / 2 ^ 23))"

text \<open>Two pixels with splitting, range \<open>[-4, 0]\<close> requested, four bins of width 1, negative
  positions allowed. The first pixel covers \<open>[-4.75, -4.25]\<close>, entirely below the range;
  the second covers \<open>[-2.75, -2.25]\<close>.\<close>

definition below_range_split_args :: init1d_args where
  "below_range_split_args =
    \<lparr>a1_pos0 = [- 9/2, - 5/2], a1_delta_pos0 = Some [1/4, 1/4], a1_pos1 = None,
     a1_delta_pos1 = None, a1_bins = 4, a1_pos0_range = Some (- 4, 0), a1_pos1_range = None,
     a1_mask = None, a1_allow_pos0_neg = True\<rparr>"




text \<open>One pixel covering \<open>[-3.5, -2]\<close>, range \<open>[-4, 0]\<close> requested, four bins of width 1: the
  upper boundary of the pixel lies on the edge between bins 1 and 2. The second
  definition is the instance that the constructor builds from these arguments.\<close>

definition on_edge_args :: init1d_args where
  "on_edge_args =
    \<lparr>a1_pos0 = [- 11/4], a1_delta_pos0 = Some [3/4], a1_pos1 = None, a1_delta_pos1 = None,
     a1_bins = 4, a1_pos0_range = Some (- 4, 0), a1_pos1_range = None, a1_mask = None,
     a1_allow_pos0_neg = True\<rparr>"

definition on_edge1d :: histo1d where
  "on_edge1d =
    \<lparr>h1_size = 1, h1_bins = 4, h1_allow_pos0_neg = True,
     h1_check_mask = False, h1_cmask = [],
     h1_cpos0 = [- 11/4], h1_dpos0 = [3/4],
     h1_cpos0_sup = [- 2], h1_cpos0_inf = [- 7/2],
     h1_pos0_min = - 4, h1_pos0_maxin = 0, h1_pos0_max = 0,
     h1_check_pos1 = False, h1_cpos1_min = [], h1_cpos1_max = [],
     h1_pos1_min = 0, h1_pos1_max = 0,
     h1_delta = 1, h1_lut = [(0, 0, 1/3), (2, 0, 0), (1, 0, 2/3)],
     h1_bin_centers = [- 7/2, - 5/2, - 3/2, - 1/2], h1_warnings = []\<rparr>"


text \<open>The condition under which the weights of a pixel stay between 0 and 1: on every
  axis the clamped bin range of a pixel that emits entries is ordered,
  \<open>bin_min \<le> bin_max\<close>.\<close>

definition pixel_ordered1d :: "histo1d \<Rightarrow> nat \<Rightarrow> bool" where
  "pixel_ordered1d s idx =
    (masked1d s idx \<or> pos1_rejected s idx
     \<or> axis_outside (h1_bins s) (fbin0_min_of s idx) (fbin0_max_of s idx)
     \<or> clamped_min (fbin0_min_of s idx) \<le> clamped_max (h1_bins s) (fbin0_max_of s idx))"





section \<open>Verified properties\<close>

subsection \<open>Auxiliary facts\<close>

lemma c_int_nonneg: "0 \<le> x \<Longrightarrow> c_int x = \<lfloor>x\<rfloor>"
  by (simp add: c_int_def)

lemma c_int_negative_iff: "c_int x < 0 \<longleftrightarrow> x \<le> -1"
  unfolding c_int_def by (auto simp: ceiling_less_iff floor_less_iff)

lemma c_int_ge_iff: "0 < n \<Longrightarrow> n \<le> c_int x \<longleftrightarrow> real_of_int n \<le> x"
proof (cases "0 \<le> x")
  case True
  then show ?thesis by (simp add: c_int_def le_floor_iff)
next
  case False
  assume n: "0 < n"
  have "\<lceil>x\<rceil> \<le> 0" using False by (simp add: ceiling_le_iff)
  then have "\<not> n \<le> \<lceil>x\<rceil>" using n by linarith
  moreover have "\<not> real_of_int n \<le> x" using False n by simp
  ultimately show ?thesis using False by (simp only: c_int_def if_False)
qed

lemma concat_filter_key:
  assumes "\<And>j e. e \<in> set (f j) \<Longrightarrow> key e = j"
  shows "i < n \<Longrightarrow> filter (\<lambda>e. key e = i) (concat (map f [0 ..< n])) = f i"
proof (induction n)
  case 0
  then show ?case by simp
next
  case (Suc n)
  have own: "filter (\<lambda>e. key e = i) (f i) = f i"
    using assms by (simp add: filter_id_conv)
  have other: "filter (\<lambda>e. key e = i) (f j) = []" if "j \<noteq> i" for j
    using assms that by (auto simp: filter_empty_conv)
  have none: "filter (\<lambda>e. key e = i) (concat (map f [0 ..< m])) = []" if "m \<le> i" for m
    using assms that by (auto simp: filter_empty_conv)
  show ?case
  proof (cases "i < n")
    case True
    with Suc.IH other[of n] show ?thesis by simp
  next
    case False
    with Suc.prems have "i = n" by simp
    with none[of n] own show ?thesis by simp
  qed
qed

lemma split1d_idx: "e \<in> set (split1d bins idx fmin fmax) \<Longrightarrow> entry_idx e = idx"
  by (auto simp: split1d_def Let_def entry_idx_def split: if_splits)

lemma calc_lut_pixel_idx: "e \<in> set (calc_lut_pixel s idx) \<Longrightarrow> entry_idx e = idx"
  by (auto simp: calc_lut_pixel_def Let_def split: if_splits dest: split1d_idx)

lemma pixel_entries_calc_lut:
  "idx < h1_size s \<Longrightarrow> pixel_entries (calc_lut s) idx = calc_lut_pixel s idx"
  unfolding pixel_entries_def calc_lut_def
  by (rule concat_filter_key) (rule calc_lut_pixel_idx)

lemma split1d_unclipped:
  assumes "0 \<le> fmin" "fmin \<le> fmax" "fmax < real_of_int bins"
  shows "split1d bins idx fmin fmax = spec_split1d idx fmin fmax"
proof -
  have a: "c_int fmin = \<lfloor>fmin\<rfloor>" and b: "c_int fmax = \<lfloor>fmax\<rfloor>"
    using assms by (simp_all add: c_int_nonneg)
  have "0 \<le> fmax" using assms by linarith
  moreover have "0 \<le> \<lfloor>fmin\<rfloor>" "\<lfloor>fmin\<rfloor> \<le> \<lfloor>fmax\<rfloor>" "\<lfloor>fmax\<rfloor> < bins"
    using assms by (simp_all add: floor_mono floor_less_iff)
  ultimately show ?thesis
    by (auto simp add: split1d_def spec_split1d_def a b Let_def)
qed

lemma weight_sum_const: "weight_sum (map (\<lambda>i. (i, idx, w)) [a .. b]) = real (nat (b - a + 1)) * w"
  by (simp add: weight_sum_def comp_def entry_weight_def sum_list_triv)

lemma spec_split1d_sum:
  assumes "fmin \<le> fmax"
  shows "weight_sum (spec_split1d idx fmin fmax) = 1"
proof (cases "\<lfloor>fmin\<rfloor> = \<lfloor>fmax\<rfloor>")
  case True
  then show ?thesis by (simp add: spec_split1d_def weight_sum_def entry_weight_def)
next
  case False
  with assms have lt: "\<lfloor>fmin\<rfloor> < \<lfloor>fmax\<rfloor>" using floor_mono[of fmin fmax] by simp
  then have ne: "fmax - fmin \<noteq> 0" using assms by fastforce
  have len: "real (nat (\<lfloor>fmax\<rfloor> - 1 - (\<lfloor>fmin\<rfloor> + 1) + 1)) = real_of_int \<lfloor>fmax\<rfloor> - real_of_int \<lfloor>fmin\<rfloor> - 1"
    using lt by simp
  have "weight_sum (spec_split1d idx fmin fmax) =
        (1 / (fmax - fmin)) * (real_of_int (\<lfloor>fmin\<rfloor> + 1) - fmin)
        + ((1 / (fmax - fmin)) * (fmax - real_of_int \<lfloor>fmax\<rfloor>)
        + weight_sum (map (\<lambda>i. (i, idx, 1 / (fmax - fmin))) [\<lfloor>fmin\<rfloor> + 1 .. \<lfloor>fmax\<rfloor> - 1]))"
    using False by (simp add: spec_split1d_def Let_def weight_sum_def entry_weight_def)
  also have "\<dots> = (1 / (fmax - fmin)) * ((real_of_int (\<lfloor>fmin\<rfloor> + 1) - fmin)
        + (fmax - real_of_int \<lfloor>fmax\<rfloor>) + (real_of_int \<lfloor>fmax\<rfloor> - real_of_int \<lfloor>fmin\<rfloor> - 1))"
    unfolding weight_sum_const len by (simp only: distrib_left mult.commute)
  also have "\<dots> = (1 / (fmax - fmin)) * (fmax - fmin)"
    by simp
  also have "\<dots> = 1" using ne by simp
  finally show ?thesis .
qed

subsection \<open>One dimension without splitting\<close>

lemma calc_lut_nosplit_pixel_idx:
  "e \<in> set (calc_lut_nosplit_pixel s idx) \<Longrightarrow> entry_idx e = idx"
  by (auto simp: calc_lut_nosplit_pixel_def Let_def entry_idx_def split: if_splits)

lemma pixel_entries_calc_lut_nosplit:
  "idx < h1_size s \<Longrightarrow> pixel_entries (calc_lut_nosplit s) idx = calc_lut_nosplit_pixel s idx"
  unfolding pixel_entries_def calc_lut_nosplit_def
  by (rule concat_filter_key) (rule calc_lut_nosplit_pixel_idx)

lemma calc_lut_nosplit_in_range:
  assumes "idx < h1_size s" "\<not> masked1d s idx" "\<not> pos1_rejected s idx"
    and "0 \<le> get_bin_number (h1_cpos0 s ! idx) (h1_pos0_min s) (h1_delta s)"
    and "get_bin_number (h1_cpos0 s ! idx) (h1_pos0_min s) (h1_delta s) < real_of_int (h1_bins s)"
  shows "pixel_entries (calc_lut_nosplit s) idx
         = [(\<lfloor>get_bin_number (h1_cpos0 s ! idx) (h1_pos0_min s) (h1_delta s)\<rfloor>, idx, 1)]"
  using assms
  by (simp add: pixel_entries_calc_lut_nosplit calc_lut_nosplit_pixel_def Let_def
      c_int_nonneg floor_less_iff le_floor_iff onef_def)

lemma calc_lut_nosplit_out_of_range:
  assumes "idx < h1_size s"
    and "get_bin_number (h1_cpos0 s ! idx) (h1_pos0_min s) (h1_delta s) \<le> - 1
         \<or> real_of_int (h1_bins s) \<le> get_bin_number (h1_cpos0 s ! idx) (h1_pos0_min s) (h1_delta s)"
    and "0 < h1_bins s"
  shows "pixel_entries (calc_lut_nosplit s) idx = []"
  using assms c_int_negative_iff c_int_ge_iff[of "h1_bins s"]
  by (auto simp add: pixel_entries_calc_lut_nosplit calc_lut_nosplit_pixel_def Let_def)

text \<open>
  C5. A retained pixel whose bin \<open>floor((coordinate - pos0_min) / delta)\<close> falls outside
  \<open>[0, bins)\<close> is meant to yield no entry. The code obtains the bin by the cast \<open><int>\<close>,
  which truncates toward zero, and only then tests \<open>bin0 < 0\<close>. With the range \<open>[1, 2]\<close>
  and ten bins, the pixel at 0.95 has the continuous position \<open>-500/1001\<close>, whose floor is
  \<open>-1\<close>; the constructor nevertheless emits the entry \<open>(0, 0, 1)\<close> for it.
\<close>

theorem calc_lut_nosplit_truncates_toward_zero:
  "map_sum id (\<lambda>s. (h1_pos0_min s, h1_delta s, h1_lut s))
     (HistoBBox1d_init example_cub below_range_args)
   = Inr (1, 1001 / 10000, [(0, 0, 1), (4, 1, 1)])
   \<and> \<lfloor>get_bin_number (19 / 20) 1 (1001 / 10000)\<rfloor> = - 1"
  by (simp add: HistoBBox1d_init_def HistoBBox1d_setup_def below_range_args_def usable_delta_pos0_def
     calc_boundaries_nosplit_def fresh1d_def setup_pos1_def example_cub_def calc_lut_nosplit_def
     calc_lut_nosplit_pixel_def masked1d_def pos1_rejected_def get_bin_number_def c_int_def onef_def
     linspace_def Let_def upt_rec)

subsection \<open>Masked pixels\<close>

lemma calc_lut_unmasked: "e \<in> set (calc_lut s) \<Longrightarrow> \<not> masked1d s (entry_idx e)"
  by (auto simp: calc_lut_def calc_lut_pixel_def Let_def split: if_splits dest!: split1d_idx)

lemma calc_lut_nosplit_unmasked: "e \<in> set (calc_lut_nosplit s) \<Longrightarrow> \<not> masked1d s (entry_idx e)"
  by (auto simp: calc_lut_nosplit_def calc_lut_nosplit_pixel_def Let_def entry_idx_def split: if_splits)

text \<open>
  C3. No masked pixel appears in a LUT entry (lemmas \<open>calc_lut_unmasked\<close>,
  \<open>calc_lut_nosplit_unmasked\<close> and \<open>calc_lut2d_unmasked\<close>), and masked pixels are
  meant not to influence the automatic range. In \<open>calc_boundaries\<close> the running extrema
  start from \<open>cpos0[0]\<close> whether or not pixel 0 is masked. With pixels at 10, 1 and 2 of
  half-extent 0.5 and the first one masked, the bounds of the unmasked pixels are
  \<open>[0.5, 1.5]\<close> and \<open>[1.5, 2.5]\<close>, yet the computed range is \<open>pos0_min = 0.5\<close>,
  \<open>pos0_maxin = 10\<close>.
\<close>

theorem calc_boundaries_seed_ignores_mask:
  "map_sum id (\<lambda>s. (h1_pos0_min s, h1_pos0_maxin s, h1_lut s))
     (HistoBBox1d_init example_cub masked_first_args)
   = Inr (1 / 2, 10, [(0, 1, 1), (0, 2, 1)])
   \<and> unmasked_bounds [1, 0, 0] [10, 1, 2] [1 / 2, 1 / 2, 1 / 2] = [(1 / 2, 3 / 2), (3 / 2, 5 / 2)]"
  by code_simp

subsection \<open>Clamping of negative lower bounds\<close>

text \<open>
  C4. With \<open>allow_pos0_neg\<close> false a negative lower bound is meant to be 0 for bounds
  tracking and for bin assignment. The one-dimensional \<open>calc_boundaries\<close> stores the lower
  bound in \<open>cpos0_inf\<close> before clamping its local copy, so \<open>calc_lut\<close> reads the negative
  value: for the pixel at 0.5 of half-extent 1 the stored bound is \<open>-0.5\<close> and
  \<open>fbin0_min\<close> is \<open>-1500/1501\<close>, not 0. The two-dimensional \<open>calc_boundaries\<close> clamps first
  and stores 0 for the same pixel.
\<close>

theorem calc_boundaries_stores_unclamped_lower:
  "map_sum id (\<lambda>s. (h1_cpos0_inf s, h1_pos0_min s, fbin0_min_of s 0, h1_lut s))
     (HistoBBox1d_init example_cub negative_lower_args)
   = Inr ([- 1 / 2], 0, - 1500 / 1501, [(0, 0, 3001 / 6000), (2, 0, 749 / 3000), (1, 0, 1501 / 6000)])
   \<and> map_sum id h2_cpos0_inf (HistoBBox2d_init example_cub (355 / 113) negative_lower_args2d)
     = Inr [0]"
  by code_simp

subsection \<open>Bin counts\<close>

text \<open>
  C9. A bin count that is not positive is meant to become 1 before the bin width is
  computed. The two-dimensional constructor does so (\<open>floor_bins\<close>); the one-dimensional
  constructor stores \<open>bins\<close> as given: with \<open>bins = -2\<close> the instance has \<open>bins = -2\<close> and
  the negative bin width \<open>-2001/2000\<close>.
\<close>

theorem HistoBBox1d_keeps_nonpositive_bins:
  "map_sum id (\<lambda>s. (h1_bins s, h1_delta s)) (HistoBBox1d_setup example_cub negative_bins_args)
   = Inr (- 2, - 2001 / 2000)
   \<and> floor_bins (BinsScalar (- 2)) = (1, 1)"
  by code_simp

subsection \<open>The secondary arrays without a secondary range\<close>

lemma HistoBBox1d_init_check_pos1:
  "a1_pos1_range a = None \<Longrightarrow> HistoBBox1d_init cub a = Inr s \<Longrightarrow> \<not> h1_check_pos1 s"
  by (auto simp: HistoBBox1d_init_def HistoBBox1d_setup_def setup_pos1_def Let_def
      split: sum.splits if_splits)

text \<open>
  C10. In \<open>HistoBBox1d\<close>, when \<open>pos1_range\<close> is \<open>None\<close>, the arguments \<open>pos1\<close> and
  \<open>delta_pos1\<close> have no effect: two constructions that differ only in them give the same
  outcome (the same LUT, bounds, bin width and bin centres, or the same error), and no
  pixel is rejected by the secondary filter.
\<close>

theorem HistoBBox1d_ignores_pos1_without_range:
  assumes "a1_pos1_range a = None"
  shows "HistoBBox1d_init cub (a\<lparr>a1_pos1 := p, a1_delta_pos1 := d\<rparr>)
           = HistoBBox1d_init cub (a\<lparr>a1_pos1 := p', a1_delta_pos1 := d'\<rparr>)
         \<and> (\<forall>s idx. HistoBBox1d_init cub (a\<lparr>a1_pos1 := p, a1_delta_pos1 := d\<rparr>) = Inr s
               \<longrightarrow> \<not> pos1_rejected s idx)"
proof -
  have u: "usable_delta_pos0 (a\<lparr>a1_pos1 := q, a1_delta_pos1 := e\<rparr>) = usable_delta_pos0 a"
    for q e
    by (simp add: usable_delta_pos0_def cong: option.case_cong)
  have f: "fresh1d (a\<lparr>a1_pos1 := q, a1_delta_pos1 := e\<rparr>) = fresh1d a" for q e
    by (simp add: fresh1d_def u cong: option.case_cong)
  have p: "setup_pos1 cub (a\<lparr>a1_pos1 := q, a1_delta_pos1 := e\<rparr>) t = setup_pos1 cub a t"
    for q e t
    using assms by (simp add: setup_pos1_def)
  have st: "HistoBBox1d_setup cub (a\<lparr>a1_pos1 := q, a1_delta_pos1 := e\<rparr>)
            = HistoBBox1d_setup cub a" for q e
    by (simp add: HistoBBox1d_setup_def u f p cong: option.case_cong sum.case_cong)
  have same: "HistoBBox1d_init cub (a\<lparr>a1_pos1 := q, a1_delta_pos1 := e\<rparr>) = HistoBBox1d_init cub a"
    for q e
    by (simp add: HistoBBox1d_init_def st u Let_def cong: sum.case_cong if_cong)
  have "\<not> pos1_rejected s idx" if "HistoBBox1d_init cub a = Inr s" for s idx
    using HistoBBox1d_init_check_pos1[OF assms that] by (simp add: pos1_rejected_def)
  then show ?thesis by (simp add: same)
qed

theorem HistoBBox1d_ignores_pos1_without_range_witness:
  "a1_pos1_range pos1_args = None
   \<and> HistoBBox1d_init example_cub (pos1_args\<lparr>a1_pos1 := Some [0, 1], a1_delta_pos1 := Some [1/10, 1/10]\<rparr>)
     = HistoBBox1d_init example_cub (pos1_args\<lparr>a1_pos1 := None, a1_delta_pos1 := Some [7]\<rparr>)
   \<and> map_sum id (\<lambda>s. (h1_lut s, h1_pos0_min s, h1_pos0_max s, h1_delta s, h1_bin_centers s, h1_check_pos1 s))
        (HistoBBox1d_init example_cub pos1_args)
     = Inr ([(0, 0, 1), (1, 1, 1)], 1/4, 1751/1000, 1501/2000, [2501/4000, 5503/4000], False)"
proof -
  have h: "a1_pos1_range pos1_args = None"
    by (simp add: pos1_args_def)
  have e: "map_sum id (\<lambda>s. (h1_lut s, h1_pos0_min s, h1_pos0_max s, h1_delta s, h1_bin_centers s, h1_check_pos1 s))
        (HistoBBox1d_init example_cub pos1_args)
     = Inr ([(0, 0, 1), (1, 1, 1)], 1/4, 1751/1000, 1501/2000, [2501/4000, 5503/4000], False)"
    by code_simp
  show ?thesis
    using h e HistoBBox1d_ignores_pos1_without_range
          [OF h, where cub = example_cub and p = "Some [0, 1]" and d = "Some [1/10, 1/10]"
             and p' = None and d' = "Some [7]"]
    by blast
qed

subsection \<open>The two-stage reduction\<close>

text \<open>The halving loop returns exactly when it reaches two active threads: it does for
  every power of two from 2 on, and never for a single thread.\<close>

lemma halving_power_of_two_returns: "\<exists>r. halving (2 ^ Suc k) scratch = Some r"
proof (induction k arbitrary: scratch)
  case 0
  show ?case by (subst halving.simps) simp
next
  case (Suc k)
  have "(2::nat) ^ Suc (Suc k) \<noteq> 2" by simp
  then have "halving (2 ^ Suc (Suc k)) scratch
        = halving (2 ^ Suc k) (halve_round (2 ^ Suc k) scratch)"
    by (subst halving.simps) simp
  with Suc.IH show ?case by simp
qed


lemma halving_returns_only_from_two:
  assumes "halving active_threads scratch = Some result"
  shows "2 \<le> active_threads"
proof (rule halving.raw_induct[where P = "\<lambda>a s r. 2 \<le> a"])
  show "halving active_threads scratch = Some result" by fact
next
  fix F :: "nat \<Rightarrow> float2 list \<Rightarrow> float2 list option" and a s r
  assume IH: "\<And>a s r. F a s = Some r \<Longrightarrow> 2 \<le> a"
    and eq: "(if a \<noteq> 2 then F (a div 2) (halve_round (a div 2) s) else Some s) = Some r"
  show "2 \<le> a"
  proof (cases "a = 2")
    case True
    then show ?thesis by simp
  next
    case False
    with eq have "F (a div 2) (halve_round (a div 2) s) = Some r"
      by simp
    then have "2 \<le> a div 2"
      by (rule IH)
    then show ?thesis by arith
  qed
qed

lemma halving_single_thread_never_returns: "halving 1 scratch = None"
proof (cases "halving 1 scratch")
  case None
  then show ?thesis .
next
  case (Some r)
  from halving_returns_only_from_two[OF this] show ?thesis by simp
qed

lemma reduce1_single_thread_never_returns:
  assumes "0 < ngroups"
  shows "reduce1 1 ngroups buffer (int (length buffer)) = Inl NoReturn"
proof -
  have g: "reduce1_group 1 ngroups buffer len g = None" for len g
    using halving_single_thread_never_returns
    by (auto simp add: reduce1_group_def split: option.splits)
  obtain n where n: "ngroups = Suc n"
    using assms by (cases ngroups) auto
  have "those (map (reduce1_group 1 ngroups buffer len) [0 ..< ngroups]) = None" for len
    unfolding n upt_conv_Cons[OF zero_less_Suc] using g[of len 0] by (simp add: n)
  then show ?thesis by (simp add: reduce1_def)
qed

text \<open>
  C8. On the ramp \<open>0 .. N - 1\<close> the two stages are meant to return \<open>min = 0\<close> and
  \<open>max = N - 1\<close>. The loop of \<open>reduce1\<close> stops when two threads are active, and only
  \<open>scratch[0]\<close> is written to \<open>preresult\<close>: the partial held in \<open>scratch[1]\<close>, which
  gathers the threads of odd local index, is lost. With a workgroup size of 4, four
  workgroups and \<open>N = 16\<close>, the stage-1 results are \<open>(0, 2)\<close>, \<open>(4, 6)\<close>, \<open>(8, 10)\<close>,
  \<open>(12, 14)\<close>, and \<open>reduce2\<close> returns the four floats \<open>(0, 10, 4, 14)\<close>: the value 15 is in
  none of them.
\<close>

theorem reduce1_drops_odd_local_threads:
  "reduce1 4 4 (ramp 16) 16
     = Inr [(Finite 0, Finite 2), (Finite 4, Finite 6), (Finite 8, Finite 10), (Finite 12, Finite 14)]
   \<and> reduce_minmax 4 4 (ramp 16) = Inr (Finite 0, Finite 10, Finite 4, Finite 14)"
  by code_simp

subsection \<open>Two-dimensional split\<close>

lemma upto_ends: "a < b \<Longrightarrow> [a .. b] = a # [a + 1 .. b - 1] @ [b]"
proof -
  assume "a < b"
  then have "[a .. b] = a # [a + 1 .. b]" by (simp add: upto_rec1)
  also have "[a + 1 .. b] = [a + 1 .. b - 1] @ [b]" using \<open>a < b\<close> by (simp add: upto_rec2)
  finally show ?thesis .
qed

lemma mset_concat_pairs:
  "mset (concat (map (\<lambda>j. [f j, g j]) js)) = mset (map f js) + mset (map g js)"
  by (induction js) simp_all

lemma mset_grid:
  assumes "a < b" "c < d"
  shows "mset ([C a c, C a d, C b c, C b d]
           @ concat (map (\<lambda>i. [C i c] @ map (C i) [c + 1 .. d - 1] @ [C i d]) [a + 1 .. b - 1])
           @ concat (map (\<lambda>j. [C a j, C b j]) [c + 1 .. d - 1]))
         = mset (concat (map (\<lambda>i. map (C i) [c .. d]) [a .. b]))"
proof -
  have row: "map (C i) [c .. d] = [C i c] @ map (C i) [c + 1 .. d - 1] @ [C i d]" for i
    using assms(2) by (simp add: upto_ends)
  show ?thesis
    unfolding row upto_ends[OF assms(1)]
    by (simp add: mset_concat_pairs)
qed


lemma split2d_spread:
  assumes nd: "\<not> axis_outside bins0 fmin0 fmax0" "\<not> axis_outside bins1 fmin1 fmax1"
    and s0: "clamped_min fmin0 < clamped_max bins0 fmax0"
    and s1: "clamped_min fmin1 < clamped_max bins1 fmax1"
  shows "mset (split2d bins0 bins1 idx fmin0 fmax0 fmin1 fmax1)
         = mset (spec_split2d bins1 idx (clamped_min fmin0) (clamped_max bins0 fmax0)
                   (clamped_min fmin1) (clamped_max bins1 fmax1) fmin0 fmax0 fmin1 fmax1)"
proof -
  define a where "a = clamped_min fmin0"
  define b where "b = clamped_max bins0 fmax0"
  define c where "c = clamped_min fmin1"
  define d where "d = clamped_max bins1 fmax1"
  define inv_area where "inv_area = 1 / ((fmax0 - fmin0) * (fmax1 - fmin1))"
  define C where "C = (\<lambda>i j. (i * bins1 + j, idx,
      inv_area * edge_fraction a b fmin0 fmax0 i * edge_fraction c d fmin1 fmax1 j))"
  have ab: "a < b" and cd: "c < d" using s0 s1 by (simp_all add: a_def b_def c_def d_def)
  have e0: "edge_fraction a b fmin0 fmax0 a = real_of_int (a + 1) - fmin0"
    "edge_fraction a b fmin0 fmax0 b = fmax0 - real_of_int b"
    "\<And>i. i \<in> set [a + 1 .. b - 1] \<Longrightarrow> edge_fraction a b fmin0 fmax0 i = 1"
    using ab by (auto simp: edge_fraction_def)
  have e1: "edge_fraction c d fmin1 fmax1 c = real_of_int (c + 1) - fmin1"
    "edge_fraction c d fmin1 fmax1 d = fmax1 - real_of_int d"
    "\<And>j. j \<in> set [c + 1 .. d - 1] \<Longrightarrow> edge_fraction c d fmin1 fmax1 j = 1"
    using cd by (auto simp: edge_fraction_def)
  have inner: "map (C i) [c + 1 .. d - 1] = map (\<lambda>j. (i * bins1 + j, idx, inv_area)) [c + 1 .. d - 1]"
    if "i \<in> set [a + 1 .. b - 1]" for i
    by (rule map_cong[OF refl]) (simp add: C_def e0(3)[OF that] e1(3))
  have rows: "map (\<lambda>i. [C i c] @ map (C i) [c + 1 .. d - 1] @ [C i d]) [a + 1 .. b - 1]
      = map (\<lambda>i. [(i * bins1 + c, idx, inv_area * (real_of_int (c + 1) - fmin1))]
                 @ map (\<lambda>j. (i * bins1 + j, idx, inv_area)) [c + 1 .. d - 1]
                 @ [(i * bins1 + d, idx, inv_area * (fmax1 - real_of_int d))]) [a + 1 .. b - 1]"
    by (rule map_cong[OF refl]) (simp add: inner, simp add: C_def e0 e1)
  have cols: "map (\<lambda>j. [C a j, C b j]) [c + 1 .. d - 1]
      = map (\<lambda>j. [(a * bins1 + j, idx, inv_area * (real_of_int (a + 1) - fmin0)),
                    (b * bins1 + j, idx, inv_area * (fmax0 - real_of_int b))]) [c + 1 .. d - 1]"
    by (rule map_cong[OF refl]) (simp add: C_def e0 e1)
  have corners: "[C a c, C a d, C b c, C b d]
      = [(a * bins1 + c, idx, inv_area * (real_of_int (a + 1) - fmin0) * (real_of_int (c + 1) - fmin1)),
         (a * bins1 + d, idx, inv_area * (real_of_int (a + 1) - fmin0) * (fmax1 - real_of_int d)),
         (b * bins1 + c, idx, inv_area * (fmax0 - real_of_int b) * (real_of_int (c + 1) - fmin1)),
         (b * bins1 + d, idx, inv_area * (fmax0 - real_of_int b) * (fmax1 - real_of_int d))]"
    by (simp add: C_def e0 e1)
  have code: "split2d bins0 bins1 idx fmin0 fmax0 fmin1 fmax1
      = [C a c, C a d, C b c, C b d]
        @ concat (map (\<lambda>i. [C i c] @ map (C i) [c + 1 .. d - 1] @ [C i d]) [a + 1 .. b - 1])
        @ concat (map (\<lambda>j. [C a j, C b j]) [c + 1 .. d - 1])"
    unfolding rows cols corners
    using nd ab cd
    unfolding split2d_def axis_outside_def Let_def
    by (simp add: a_def[unfolded clamped_min_def, symmetric]
        b_def[unfolded clamped_max_def, symmetric]
        c_def[unfolded clamped_min_def, symmetric]
        d_def[unfolded clamped_max_def, symmetric]
        inv_area_def[symmetric])
  have spec: "spec_split2d bins1 idx a b c d fmin0 fmax0 fmin1 fmax1
      = concat (map (\<lambda>i. map (C i) [c .. d]) [a .. b])"
    by (simp add: spec_split2d_def C_def inv_area_def)
  show ?thesis
    unfolding a_def[symmetric] b_def[symmetric] c_def[symmetric] d_def[symmetric]
    unfolding code spec by (rule mset_grid[OF ab cd])
qed


lemma c_int_mono: "x \<le> y \<Longrightarrow> c_int x \<le> c_int y"
proof -
  assume xy: "x \<le> y"
  show ?thesis
  proof (cases "0 \<le> x")
    case True
    with xy show ?thesis by (simp add: c_int_def floor_mono)
  next
    case False
    then have "\<lceil>x\<rceil> \<le> 0" by (simp add: ceiling_le_iff)
    show ?thesis
    proof (cases "0 \<le> y")
      case True
      then have "0 \<le> \<lfloor>y\<rfloor>" by simp
      with \<open>\<lceil>x\<rceil> \<le> 0\<close> have "\<lceil>x\<rceil> \<le> \<lfloor>y\<rfloor>" by linarith
      with False True show ?thesis by (simp only: c_int_def if_True if_False)
    next
      case y: False
      with False xy show ?thesis by (simp add: c_int_def ceiling_mono)
    qed
  qed
qed

lemma spread_left: "clamped_min fmin < b \<Longrightarrow> fmin < real_of_int (clamped_min fmin + 1)"
proof (cases "0 \<le> fmin")
  case True
  then have "clamped_min fmin = \<lfloor>fmin\<rfloor>" by (simp add: clamped_min_def c_int_def)
  then show ?thesis by simp
next
  case False
  have "0 \<le> clamped_min fmin" by (simp add: clamped_min_def)
  with False show ?thesis by simp
qed

lemma spread_right: "clamped_min fmin < clamped_max bins fmax \<Longrightarrow> real_of_int (clamped_max bins fmax) \<le> fmax"
proof -
  assume lt: "clamped_min fmin < clamped_max bins fmax"
  have "0 \<le> clamped_min fmin" by (simp add: clamped_min_def)
  with lt have pos: "1 \<le> clamped_max bins fmax" by simp
  have le: "clamped_max bins fmax \<le> c_int fmax" by (simp add: clamped_max_def)
  have "0 \<le> fmax"
  proof (rule ccontr)
    assume "\<not> 0 \<le> fmax"
    then have "c_int fmax \<le> 0" by (simp add: c_int_def ceiling_le_iff)
    with pos le show False by simp
  qed
  then have "real_of_int (c_int fmax) \<le> fmax" by (simp add: c_int_def)
  with le show ?thesis by linarith
qed

lemma sum_edge_fraction:
  assumes "a < b"
  shows "sum_list (map (edge_fraction a b fmin fmax) [a .. b]) = fmax - fmin"
proof -
  have mid: "map (edge_fraction a b fmin fmax) [a + 1 .. b - 1] = map (\<lambda>i. 1) [a + 1 .. b - 1]"
    by (rule map_cong[OF refl]) (auto simp: edge_fraction_def)
  have len: "real (nat (b - 1 - (a + 1) + 1)) = real_of_int b - real_of_int a - 1"
    using assms by simp
  show ?thesis
    unfolding upto_ends[OF assms]
    using assms
    by (simp add: mid sum_list_triv len) (simp add: edge_fraction_def)
qed

lemma weight_sum_mset: "mset xs = mset ys \<Longrightarrow> weight_sum xs = weight_sum ys"
proof -
  assume "mset xs = mset ys"
  then have "mset (map entry_weight xs) = mset (map entry_weight ys)" by simp
  then have "sum_mset (mset (map entry_weight xs)) = sum_mset (mset (map entry_weight ys))"
    by (rule arg_cong)
  then show ?thesis by (simp only: weight_sum_def sum_mset_sum_list)
qed

lemma sum_list_of_concat: "sum_list (concat xss) = sum_list (map sum_list (xss :: real list list))"
  by (induction xss) simp_all

lemma spec_split2d_sum:
  assumes "a < b" "c < d" "fmin0 < fmax0" "fmin1 < fmax1"
  shows "weight_sum (spec_split2d bins1 idx a b c d fmin0 fmax0 fmin1 fmax1) = 1"
proof -
  define inv_area where "inv_area = 1 / ((fmax0 - fmin0) * (fmax1 - fmin1))"
  have row: "sum_list (map (\<lambda>j. inv_area * edge_fraction a b fmin0 fmax0 i
                                 * edge_fraction c d fmin1 fmax1 j) [c .. d])
             = inv_area * edge_fraction a b fmin0 fmax0 i * (fmax1 - fmin1)" for i
    by (simp add: sum_list_const_mult sum_edge_fraction[OF assms(2)])
  have "weight_sum (spec_split2d bins1 idx a b c d fmin0 fmax0 fmin1 fmax1)
        = sum_list (map (\<lambda>i. sum_list (map (\<lambda>j. inv_area * edge_fraction a b fmin0 fmax0 i
                                 * edge_fraction c d fmin1 fmax1 j) [c .. d])) [a .. b])"
    by (simp add: weight_sum_def spec_split2d_def inv_area_def map_concat sum_list_of_concat
        comp_def entry_weight_def)
  also have "\<dots> = sum_list (map (\<lambda>i. (inv_area * (fmax1 - fmin1)) * edge_fraction a b fmin0 fmax0 i) [a .. b])"
    unfolding row by (simp add: mult_ac)
  also have "\<dots> = inv_area * (fmax1 - fmin1) * (fmax0 - fmin0)"
    by (simp only: sum_list_const_mult sum_edge_fraction[OF assms(1)])
  also have "\<dots> = 1"
    using assms(3,4) by (simp add: inv_area_def)
  finally show ?thesis .
qed

lemma split2d_idx: "e \<in> set (split2d bins0 bins1 idx f0 g0 f1 g1) \<Longrightarrow> entry_idx e = idx"
  by (auto simp: split2d_def Let_def entry_idx_def split: if_splits)

lemma calc_lut2d_pixel_idx: "e \<in> set (calc_lut2d_pixel s idx) \<Longrightarrow> entry_idx e = idx"
  by (auto simp: calc_lut2d_pixel_def Let_def split: if_splits dest: split2d_idx)

lemma pixel_entries_calc_lut2d:
  "idx < h2_size s \<Longrightarrow> pixel_entries (calc_lut2d s) idx = calc_lut2d_pixel s idx"
  unfolding pixel_entries_def calc_lut2d_def
  by (rule concat_filter_key) (rule calc_lut2d_pixel_idx)

lemma calc_lut2d_unmasked: "e \<in> set (calc_lut2d s) \<Longrightarrow> \<not> masked2d s (entry_idx e)"
  by (auto simp: calc_lut2d_def calc_lut2d_pixel_def Let_def split: if_splits dest!: split2d_idx)


lemma spread_span: "clamped_min fmin < clamped_max bins fmax \<Longrightarrow> fmin < fmax"
proof -
  assume lt: "clamped_min fmin < clamped_max bins fmax"
  have "fmin < real_of_int (clamped_min fmin + 1)" using lt by (rule spread_left)
  moreover have "real_of_int (clamped_min fmin + 1) \<le> real_of_int (clamped_max bins fmax)"
    using lt by linarith
  moreover have "real_of_int (clamped_max bins fmax) \<le> fmax" using lt by (rule spread_right)
  ultimately show ?thesis by linarith
qed

text \<open>
  C2. In the two-dimensional split builder, take an unmasked pixel that is not dropped
  and is spread over more than one bin in both axes. The entries emitted for it are, up
  to their order, one entry per bin of the rectangle \<open>bin0_min .. bin0_max\<close> by
  \<open>bin1_min .. bin1_max\<close>, at the combined index \<open>bin0 * bins1 + bin1\<close>, with
  \<open>inverse_area = 1 / ((fbin0_max - fbin0_min) * (fbin1_max - fbin1_min))\<close> times the product
  of the two edge fractions in a corner, times the single edge fraction on a border, and
  alone in the interior; and their weights sum to 1. (The sum is 1 whether or not the
  pixel is clipped, so in particular for an unclipped pixel.)
\<close>

theorem calc_lut2d_spread_pixel:
  assumes "idx < h2_size s" and "\<not> masked2d s idx"
    and "\<not> axis_outside (h2_bins0 s) (fbin0_min2d s idx) (fbin0_max2d s idx)"
    and "\<not> axis_outside (h2_bins1 s) (fbin1_min2d s idx) (fbin1_max2d s idx)"
    and "clamped_min (fbin0_min2d s idx) < clamped_max (h2_bins0 s) (fbin0_max2d s idx)"
    and "clamped_min (fbin1_min2d s idx) < clamped_max (h2_bins1 s) (fbin1_max2d s idx)"
  shows "mset (pixel_entries (calc_lut2d s) idx)
         = mset (spec_split2d (h2_bins1 s) idx
                  (clamped_min (fbin0_min2d s idx)) (clamped_max (h2_bins0 s) (fbin0_max2d s idx))
                  (clamped_min (fbin1_min2d s idx)) (clamped_max (h2_bins1 s) (fbin1_max2d s idx))
                  (fbin0_min2d s idx) (fbin0_max2d s idx) (fbin1_min2d s idx) (fbin1_max2d s idx))
         \<and> weight_sum (pixel_entries (calc_lut2d s) idx) = 1"
proof -
  have px: "pixel_entries (calc_lut2d s) idx
            = split2d (h2_bins0 s) (h2_bins1 s) idx (fbin0_min2d s idx) (fbin0_max2d s idx)
                (fbin1_min2d s idx) (fbin1_max2d s idx)"
    using assms(1,2)
    by (simp add: pixel_entries_calc_lut2d calc_lut2d_pixel_def fbin0_min2d_def fbin0_max2d_def
        fbin1_min2d_def fbin1_max2d_def)
  note ms = split2d_spread[OF assms(3,4,5,6), of idx]
  have "weight_sum (pixel_entries (calc_lut2d s) idx) = 1"
    unfolding px weight_sum_mset[OF ms]
    by (rule spec_split2d_sum[OF assms(5,6) spread_span[OF assms(5)] spread_span[OF assms(6)]])
  with ms show ?thesis by (simp add: px)
qed

theorem calc_lut2d_spread_pixel_witness:
  "0 < h2_size example2d \<and> \<not> masked2d example2d 0
   \<and> \<not> axis_outside (h2_bins0 example2d) (fbin0_min2d example2d 0) (fbin0_max2d example2d 0)
   \<and> \<not> axis_outside (h2_bins1 example2d) (fbin1_min2d example2d 0) (fbin1_max2d example2d 0)
   \<and> clamped_min (fbin0_min2d example2d 0) = 0
   \<and> clamped_max (h2_bins0 example2d) (fbin0_max2d example2d 0) = 2
   \<and> clamped_min (fbin1_min2d example2d 0) = 0
   \<and> clamped_max (h2_bins1 example2d) (fbin1_max2d example2d 0) = 2
   \<and> mset (pixel_entries (calc_lut2d example2d) 0)
     = mset [(0, 0, 3/40), (1, 0, 1/10), (2, 0, 3/40),
             (3, 0, 3/20), (4, 0, 1/5), (5, 0, 3/20),
             (6, 0, 3/40), (7, 0, 1/10), (8, 0, 3/40)]
   \<and> weight_sum (pixel_entries (calc_lut2d example2d) 0) = 1"
proof -
  have f: "fbin0_min2d example2d 0 = 1/2" "fbin0_max2d example2d 0 = 5/2"
    "fbin1_min2d example2d 0 = 1/4" "fbin1_max2d example2d 0 = 11/4"
    by (simp_all add: example2d_def fbin0_min2d_def fbin0_max2d_def fbin1_min2d_def
        fbin1_max2d_def get_bin_number_def)
  have h: "0 < h2_size example2d" "\<not> masked2d example2d 0"
    "h2_bins0 example2d = 4" "h2_bins1 example2d = 3"
    by (simp_all add: example2d_def masked2d_def)
  have c: "clamped_min (1/2) = 0" "clamped_max 4 (5/2) = 2"
    "clamped_min (1/4) = 0" "clamped_max 3 (11/4) = 2"
    "\<not> axis_outside 4 (1/2) (5/2)" "\<not> axis_outside 3 (1/4) (11/4)"
    by (simp_all add: clamped_min_def clamped_max_def axis_outside_def c_int_def)
  have sp: "spec_split2d 3 0 0 2 0 2 (1/2) (5/2) (1/4) (11/4)
      = [(0, 0, 3/40), (1, 0, 1/10), (2, 0, 3/40),
         (3, 0, 3/20), (4, 0, 1/5), (5, 0, 3/20),
         (6, 0, 3/40), (7, 0, 1/10), (8, 0, 3/40)]"
    by (simp add: spec_split2d_def edge_fraction_def upto_rec1)
  show ?thesis
    using calc_lut2d_spread_pixel [of 0 example2d]
    by (simp add: f h c sp)
qed


subsection \<open>Clipped pixels\<close>

text \<open>A pixel that is spread over several bins after clamping keeps the total weight 1 in
  one dimension as well: the part of the pixel beyond the range is counted in the edge
  fraction of the first or last bin.\<close>

lemma split1d_spread_sum:
  assumes no: "\<not> axis_outside bins fmin fmax"
    and lt: "clamped_min fmin < clamped_max bins fmax"
  shows "weight_sum (split1d bins idx fmin fmax) = 1"
proof -
  define a where "a = clamped_min fmin"
  define b where "b = clamped_max bins fmax"
  have ab: "a < b" using lt by (simp add: a_def b_def)
  have span: "fmax - fmin \<noteq> 0" using spread_span[OF lt] by simp
  have form: "split1d bins idx fmin fmax
      = [(a, idx, 1 / (fmax - fmin) * (real_of_int (a + 1) - fmin)),
         (b, idx, 1 / (fmax - fmin) * (fmax - real_of_int b))]
        @ map (\<lambda>i. (i, idx, 1 / (fmax - fmin))) [a + 1 .. b - 1]"
    using no ab
    unfolding split1d_def axis_outside_def Let_def
    by (auto simp add: a_def[unfolded clamped_min_def, symmetric]
        b_def[unfolded clamped_max_def, symmetric])
  have len: "real (nat (b - 1 - (a + 1) + 1)) = real_of_int b - real_of_int a - 1"
    using ab by simp
  have "weight_sum (split1d bins idx fmin fmax)
      = 1 / (fmax - fmin) * (real_of_int (a + 1) - fmin)
        + (1 / (fmax - fmin) * (fmax - real_of_int b)
        + weight_sum (map (\<lambda>i. (i, idx, 1 / (fmax - fmin))) [a + 1 .. b - 1]))"
    unfolding form by (simp add: weight_sum_def entry_weight_def)
  also have "\<dots> = 1 / (fmax - fmin) * ((real_of_int (a + 1) - fmin)
        + (fmax - real_of_int b) + (real_of_int b - real_of_int a - 1))"
    unfolding weight_sum_const len by (simp only: distrib_left mult.commute)
  also have "\<dots> = 1 / (fmax - fmin) * (fmax - fmin)" by simp
  also have "\<dots> = 1" using span by simp
  finally show ?thesis .
qed


subsection \<open>One-dimensional split: partition of unity\<close>

text \<open>What holds of the split builder: the entries of an unclipped pixel are the left
  fraction, the right fraction and \<open>inverse_area\<close> for the bins strictly between, and sum
  to 1; a pixel at least one whole bin below the range, or at or beyond its end, is
  dropped.\<close>

lemma calc_lut_unclipped_pixel:
  assumes "idx < h1_size s" and "\<not> masked1d s idx" and "\<not> pos1_rejected s idx"
    and "0 \<le> fbin0_min_of s idx" and "fbin0_min_of s idx \<le> fbin0_max_of s idx"
    and "fbin0_max_of s idx < real_of_int (h1_bins s)"
  shows "pixel_entries (calc_lut s) idx
           = spec_split1d idx (fbin0_min_of s idx) (fbin0_max_of s idx)
         \<and> weight_sum (pixel_entries (calc_lut s) idx) = 1"
proof -
  have px: "pixel_entries (calc_lut s) idx
            = split1d (h1_bins s) idx (fbin0_min_of s idx) (fbin0_max_of s idx)"
    using assms(1,2,3)
    by (simp add: pixel_entries_calc_lut calc_lut_pixel_def fbin0_min_of_def fbin0_max_of_def)
  show ?thesis
    using assms(4,5,6) by (simp add: px split1d_unclipped spec_split1d_sum)
qed

lemma calc_lut_pixel_dropped:
  assumes "idx < h1_size s" and "0 < h1_bins s"
    and "fbin0_max_of s idx \<le> - 1 \<or> real_of_int (h1_bins s) \<le> fbin0_min_of s idx"
  shows "pixel_entries (calc_lut s) idx = []"
  using assms c_int_negative_iff[of "fbin0_max_of s idx"]
    c_int_ge_iff[of "h1_bins s" "fbin0_min_of s idx"]
  by (auto simp add: pixel_entries_calc_lut calc_lut_pixel_def split1d_def Let_def
      fbin0_min_of_def fbin0_max_of_def)

text \<open>
  C1. A pixel whose bin range lies entirely outside \<open>[0, bins)\<close> is meant to yield no
  entry. The code casts the continuous positions with \<open><int>\<close>, which truncates toward
  zero, and only then tests \<open>bin0_max < 0\<close>. With the range \<open>[-4, 0]\<close> and four bins of
  width 1, the pixel covering \<open>[-4.75, -4.25]\<close> lies entirely below the range: its
  continuous positions are \<open>-3/4\<close> and \<open>-1/4\<close>, whose floors are \<open>-1\<close>. Both casts give 0
  and the constructor emits the entry \<open>(0, 0, 1)\<close> for it.
\<close>

theorem calc_lut_keeps_pixel_below_range:
  "map_sum id (\<lambda>s. (h1_pos0_min s, h1_delta s, h1_cpos0_sup s,
                      fbin0_min_of s 0, fbin0_max_of s 0, h1_lut s))
     (HistoBBox1d_init relative_cub below_range_split_args)
   = Inr (- 4, 1, [- 17 / 4, - 9 / 4], - 3 / 4, - 1 / 4, [(0, 0, 1), (1, 1, 1)])
   \<and> \<lfloor>- 3 / 4 :: real\<rfloor> = - 1 \<and> \<lfloor>- 1 / 4 :: real\<rfloor> = - 1"
  by code_simp


subsection \<open>An absent or mismatched primary half-extent array\<close>









subsection \<open>Range of the weights\<close>

lemma clamped_ordered:
  assumes "fmin \<le> fmax" "\<not> axis_outside bins fmin fmax" "0 < bins"
  shows "clamped_min fmin \<le> clamped_max bins fmax"
  using c_int_mono[OF assms(1)] assms(2,3)
  by (auto simp: clamped_max_def clamped_min_def axis_outside_def)








lemma get_bin_number_mono:
  "0 < delta \<Longrightarrow> x \<le> y \<Longrightarrow> get_bin_number x m delta \<le> get_bin_number y m delta"
  by (simp add: get_bin_number_def divide_right_mono)

text \<open>The hypothesis of the bound holds whenever the stored interval of every pixel is
  ordered and the bin count and the bin width are positive.\<close>

lemma pixel_ordered1d_if_interval_ordered:
  assumes "h1_cpos0_inf s ! idx \<le> h1_cpos0_sup s ! idx" "0 < h1_delta s" "0 < h1_bins s"
  shows "pixel_ordered1d s idx"
proof -
  have f: "fbin0_min_of s idx \<le> fbin0_max_of s idx"
    unfolding fbin0_min_of_def fbin0_max_of_def
    using assms(1,2) by (intro get_bin_number_mono) simp_all
  show ?thesis
    using clamped_ordered[OF f _ assms(3)] by (auto simp add: pixel_ordered1d_def)
qed




text \<open>The instance used above is the one that the constructor builds.\<close>

lemma on_edge1d_constructed:
  "HistoBBox1d_init relative_cub on_edge_args = Inr on_edge1d"
  by code_simp

end
